theory Spec2Isabelle
  imports Main
begin

section \<open>JavaScript values the handlers inspect\<close>

text \<open>
  The service (\<^verbatim>\<open>src/index.js\<close>) is an Express application with two JSON handlers,
  \<^verbatim>\<open>GET /api/availability\<close> and \<^verbatim>\<open>POST /api/schedule\<close>, and a credential
  loader \<^verbatim>\<open>loadTokens\<close>. JavaScript strings are modelled as \<open>string\<close>; the few
  non-ASCII characters of the source's literals are written as their UTF-8 bytes.
  A request field, a query parameter and an environment variable are
  \<open>string option\<close>: \<open>None\<close> is \<^verbatim>\<open>undefined\<close>.
\<close>

datatype json =
    JNull
  | JBool bool
  | JNum int
  | JStr string
  | JArr "json list"
  | JObj "(string \<times> json) list"

text \<open>ToBoolean on a parsed JSON value: \<^verbatim>\<open>null\<close>, \<^verbatim>\<open>false\<close>, \<^verbatim>\<open>0\<close> and
  \<^verbatim>\<open>""\<close> are falsy, every array and object is truthy.\<close>

fun truthy_json :: "json \<Rightarrow> bool" where
  "truthy_json JNull = False"
| "truthy_json (JBool b) = b"
| "truthy_json (JNum n) = (n \<noteq> 0)"
| "truthy_json (JStr s) = (s \<noteq> [])"
| "truthy_json (JArr xs) = True"
| "truthy_json (JObj kvs) = True"

text \<open>ToBoolean on a value that may be \<^verbatim>\<open>undefined\<close>.\<close>

fun truthy :: "json option \<Rightarrow> bool" where
  "truthy None = False"
| "truthy (Some v) = truthy_json v"

text \<open>ToBoolean on a string that may be \<^verbatim>\<open>undefined\<close>: the empty string is falsy.\<close>

fun truthy_str :: "string option \<Rightarrow> bool" where
  "truthy_str None = False"
| "truthy_str (Some s) = (s \<noteq> [])"

text \<open>\<^verbatim>\<open>a || b\<close> on two such strings.\<close>

definition js_or :: "string option \<Rightarrow> string option \<Rightarrow> string option" where
  "js_or a b = (if truthy_str a then a else b)"

text \<open>\<^verbatim>\<open>String.prototype.includes\<close>.\<close>

fun starts_with :: "string \<Rightarrow> string \<Rightarrow> bool" where
  "starts_with s [] = True"
| "starts_with [] (p # ps) = False"
| "starts_with (c # cs) (p # ps) = (c = p \<and> starts_with cs ps)"

fun includes_str :: "string \<Rightarrow> string \<Rightarrow> bool" where
  "includes_str [] sub = starts_with [] sub"
| "includes_str (c # cs) sub = (starts_with (c # cs) sub \<or> includes_str cs sub)"

section \<open>Decimal digits\<close>

definition is_digit :: "char \<Rightarrow> bool" where
  "is_digit c = (c \<in> set ''0123456789'')"

text \<open>The value of a digit is its position in the string of the ten digits (and 0
  for any other character, which no caller passes).\<close>

definition digit_val :: "char \<Rightarrow> int" where
  "digit_val c = int (length (takeWhile (\<lambda>x. x \<noteq> c) ''0123456789'')) mod 10"

text \<open>The value of a string of decimal digits, most significant first.\<close>

fun digits_val :: "int \<Rightarrow> string \<Rightarrow> int" where
  "digits_val acc [] = acc"
| "digits_val acc (c # cs) = digits_val (10 * acc + digit_val c) cs"

definition digit_char :: "int \<Rightarrow> char" where
  "digit_char d = ''0123456789'' ! nat d"

definition pad2 :: "int \<Rightarrow> string" where
  "pad2 n = [digit_char (n div 10 mod 10), digit_char (n mod 10)]"

definition pad3 :: "int \<Rightarrow> string" where
  "pad3 n = digit_char (n div 100 mod 10) # pad2 n"

definition pad4 :: "int \<Rightarrow> string" where
  "pad4 n = digit_char (n div 1000 mod 10) # pad3 n"

definition pad6 :: "int \<Rightarrow> string" where
  "pad6 n = [digit_char (n div 100000 mod 10), digit_char (n div 10000 mod 10)] @ pad4 n"

text \<open>Number-to-string of a non-negative integer (a template literal holding
  \<^verbatim>\<open>Date.now()\<close>).\<close>

function dec_digits :: "int \<Rightarrow> string" where
  "dec_digits n = (if n < 10 then [digit_char n]
                   else dec_digits (n div 10) @ [digit_char (n mod 10)])"
  by pat_completeness auto
termination
  by (relation "measure nat") auto

definition dec :: "int \<Rightarrow> string" where
  "dec n = (if n < 0 then CHR ''-'' # dec_digits (- n) else dec_digits n)"

section \<open>ECMAScript time values\<close>

text \<open>
  A \<^verbatim>\<open>Date\<close> holds a time value: an integral number of milliseconds since
  1970-01-01T00:00:00Z, or NaN (an Invalid Date), here \<open>int option\<close> with \<open>None\<close> for
  NaN. The abstract operations below are those of the language specification
  (Day, MakeTime, MakeDay, MakeDate, TimeClip, LocalTime, UTC). All values met here are
  integers of magnitude below \<open>2 ^ 53\<close>, where the arithmetic of doubles is exact.
\<close>

definition msPerDay :: int where
  "msPerDay = 86400000"

definition Day :: "int \<Rightarrow> int" where
  "Day t = t div msPerDay"

definition TimeWithinDay :: "int \<Rightarrow> int" where
  "TimeWithinDay t = t mod msPerDay"

definition MakeTime :: "int \<Rightarrow> int \<Rightarrow> int \<Rightarrow> int \<Rightarrow> int" where
  "MakeTime h m s ms = h * 3600000 + m * 60000 + s * 1000 + ms"

definition MakeDate :: "int \<Rightarrow> int \<Rightarrow> int" where
  "MakeDate day time = day * msPerDay + time"

definition TimeClip :: "int \<Rightarrow> int option" where
  "TimeClip t = (if \<bar>t\<bar> > 8640000000000000 then None else Some t)"

definition InLeapYear :: "int \<Rightarrow> bool" where
  "InLeapYear y = (y mod 4 = 0 \<and> (y mod 100 \<noteq> 0 \<or> y mod 400 = 0))"

definition DayFromYear :: "int \<Rightarrow> int" where
  "DayFromYear y =
     365 * (y - 1970) + (y - 1969) div 4 - (y - 1901) div 100 + (y - 1601) div 400"

definition DaysInMonth :: "int \<Rightarrow> int \<Rightarrow> int" where
  "DaysInMonth y m =
     (if m = 2 then (if InLeapYear y then 29 else 28)
      else if m = 4 \<or> m = 6 \<or> m = 9 \<or> m = 11 then 30 else 31)"

text \<open>Days of the year before the first of month \<open>m\<close> (1 to 12).\<close>

definition DaysBeforeMonth :: "int \<Rightarrow> int \<Rightarrow> int" where
  "DaysBeforeMonth y m =
     [0, 31, 59, 90, 120, 151, 181, 212, 243, 273, 304, 334] ! nat (m - 1)
       + (if 2 < m \<and> InLeapYear y then 1 else 0)"

text \<open>MakeDay for a calendar date with the month counted from 1.\<close>

definition MakeDay :: "int \<Rightarrow> int \<Rightarrow> int \<Rightarrow> int" where
  "MakeDay y m d = DayFromYear y + DaysBeforeMonth y m + d - 1"

text \<open>Year, month (from 1) and day of the month of a day number: the inverse of
  \<open>MakeDay\<close>, computed over 400-year cycles counted from 0000-03-01.\<close>

definition civil_from_days :: "int \<Rightarrow> int \<times> int \<times> int" where
  "civil_from_days z =
     (let z' = z + 719468;
          era = z' div 146097;
          doe = z' - era * 146097;
          yoe = (doe - doe div 1460 + doe div 36524 - doe div 146096) div 365;
          doy = doe - (365 * yoe + yoe div 4 - yoe div 100);
          mp = (5 * doy + 2) div 153;
          d = doy - (153 * mp + 2) div 5 + 1;
          m = (if mp < 10 then mp + 3 else mp - 9);
          y = yoe + era * 400 + (if m \<le> 2 then 1 else 0)
      in (y, m, d))"

text \<open>
  The server's time zone is a parameter: \<open>tza t isUTC\<close> is LocalTZA, the offset of
  local time from UTC in milliseconds at the time \<open>t\<close>, which is a UTC time value when
  \<open>isUTC\<close> holds and a local one otherwise. A server on UTC has \<open>tza = (\<lambda>t u. 0)\<close>, a
  server on America/Sao\_Paulo has \<open>tza = (\<lambda>t u. - 10800000)\<close>.
\<close>

type_synonym tza = "int \<Rightarrow> bool \<Rightarrow> int"

definition LocalTime :: "tza \<Rightarrow> int \<Rightarrow> int" where
  "LocalTime z t = t + z t True"

definition UTC :: "tza \<Rightarrow> int \<Rightarrow> int" where
  "UTC z t = t - z t False"

text \<open>\<^verbatim>\<open>Date.prototype.setHours(h, m, s, ms)\<close>: the hour, minute, second and
  millisecond of the date are replaced in local time; an Invalid Date stays invalid.\<close>

definition setHours :: "tza \<Rightarrow> int option \<Rightarrow> int \<Rightarrow> int \<Rightarrow> int \<Rightarrow> int \<Rightarrow> int option" where
  "setHours z tv h m s ms =
     (case tv of
        None \<Rightarrow> None
      | Some t \<Rightarrow> TimeClip (UTC z (MakeDate (Day (LocalTime z t)) (MakeTime h m s ms))))"

text \<open>\<^verbatim>\<open>Date.prototype.toISOString\<close>: \<open>None\<close> is the RangeError thrown on an Invalid
  Date.\<close>

definition year_string :: "int \<Rightarrow> string" where
  "year_string y =
     (if 0 \<le> y \<and> y \<le> 9999 then pad4 y
      else (if y < 0 then CHR ''-'' else CHR ''+'') # pad6 \<bar>y\<bar>)"

definition toISOString :: "int option \<Rightarrow> string option" where
  "toISOString tv =
     (case tv of
        None \<Rightarrow> None
      | Some t \<Rightarrow>
          (case civil_from_days (Day t) of
             (y, m, d) \<Rightarrow>
               (let r = TimeWithinDay t
                in Some (year_string y @ ''-'' @ pad2 m @ ''-'' @ pad2 d @ ''T''
                         @ pad2 (r div 3600000) @ '':'' @ pad2 (r div 60000 mod 60) @ '':''
                         @ pad2 (r div 1000 mod 60) @ ''.'' @ pad3 (r mod 1000) @ ''Z''))))"

section \<open>The regular expression of the schedule handler\<close>

text \<open>
  The only regular expression of the source is
  \<^verbatim>\<open>/^\d{4}-\d{2}-\d{2}T\d{2}:\d{2}:\d{2}$/\<close>: a sequence of single-character atoms
  between the anchors \<^verbatim>\<open>^\<close> and \<^verbatim>\<open>$\<close>, which (without the \<^verbatim>\<open>m\<close> flag) are the
  start and the end of the input. \<^verbatim>\<open>\d\<close> is an ASCII digit.
\<close>

datatype atom = Digit | Lit char

fun match_atoms :: "atom list \<Rightarrow> string \<Rightarrow> bool" where
  "match_atoms [] s = (s = [])"
| "match_atoms (a # as) [] = False"
| "match_atoms (Digit # as) (c # cs) = (is_digit c \<and> match_atoms as cs)"
| "match_atoms (Lit x # as) (c # cs) = (c = x \<and> match_atoms as cs)"

definition naive_pattern :: "atom list" where
  "naive_pattern =
     [Digit, Digit, Digit, Digit, Lit CHR ''-'', Digit, Digit, Lit CHR ''-'', Digit, Digit,
      Lit CHR ''T'', Digit, Digit, Lit CHR '':'', Digit, Digit, Lit CHR '':'', Digit, Digit]"

definition test_naive :: "string \<Rightarrow> bool" where
  "test_naive s = match_atoms naive_pattern s"

section \<open>Parsing a date string\<close>

text \<open>
  \<^verbatim>\<open>new Date(string)\<close> parses the Date Time String Format of the language
  specification: the date-only forms \<^verbatim>\<open>YYYY\<close>, \<^verbatim>\<open>YYYY-MM\<close>, \<^verbatim>\<open>YYYY-MM-DD\<close>, and a
  date-only form followed by \<^verbatim>\<open>THH:mm\<close>, \<^verbatim>\<open>THH:mm:ss\<close> or \<^verbatim>\<open>THH:mm:ss.sss\<close> and an
  optional offset \<^verbatim>\<open>Z\<close> or \<^verbatim>\<open>+HH:mm\<close> / \<^verbatim>\<open>-HH:mm\<close>. Without an offset, a date-only form
  is a UTC time and a date-time form is a local time. Every other string (the
  expanded years among them) is left to an implementation-defined fallback, which is a
  parameter \<open>legacy\<close> here.
\<close>

definition parse_date_form :: "string \<Rightarrow> (int \<times> int \<times> int) option" where
  "parse_date_form s =
     (if match_atoms [Digit, Digit, Digit, Digit] s
        then Some (digits_val 0 s, 1, 1)
      else if match_atoms [Digit, Digit, Digit, Digit, Lit CHR ''-'', Digit, Digit] s
        then Some (digits_val 0 (take 4 s), digits_val 0 (drop 5 s), 1)
      else if match_atoms [Digit, Digit, Digit, Digit, Lit CHR ''-'', Digit, Digit,
                           Lit CHR ''-'', Digit, Digit] s
        then Some (digits_val 0 (take 4 s), digits_val 0 (take 2 (drop 5 s)),
                   digits_val 0 (drop 8 s))
      else None)"

definition parse_time_form :: "string \<Rightarrow> (int \<times> int \<times> int \<times> int) option" where
  "parse_time_form s =
     (if match_atoms [Digit, Digit, Lit CHR '':'', Digit, Digit] s
        then Some (digits_val 0 (take 2 s), digits_val 0 (drop 3 s), 0, 0)
      else if match_atoms [Digit, Digit, Lit CHR '':'', Digit, Digit, Lit CHR '':'',
                           Digit, Digit] s
        then Some (digits_val 0 (take 2 s), digits_val 0 (take 2 (drop 3 s)),
                   digits_val 0 (drop 6 s), 0)
      else if match_atoms [Digit, Digit, Lit CHR '':'', Digit, Digit, Lit CHR '':'',
                           Digit, Digit, Lit CHR ''.'', Digit, Digit, Digit] s
        then Some (digits_val 0 (take 2 s), digits_val 0 (take 2 (drop 3 s)),
                   digits_val 0 (take 2 (drop 6 s)), digits_val 0 (drop 9 s))
      else None)"

text \<open>The offset of a string from UTC in milliseconds; \<open>Some None\<close> is the absent
  offset.\<close>

definition parse_offset_form :: "string \<Rightarrow> int option option" where
  "parse_offset_form s =
     (if s = [] then Some None
      else if s = ''Z'' then Some (Some 0)
      else if match_atoms [Lit CHR ''+'', Digit, Digit, Lit CHR '':'', Digit, Digit] s
              \<and> digits_val 0 (take 2 (drop 1 s)) \<le> 23 \<and> digits_val 0 (drop 4 s) \<le> 59
        then Some (Some (MakeTime (digits_val 0 (take 2 (drop 1 s))) (digits_val 0 (drop 4 s)) 0 0))
      else if match_atoms [Lit CHR ''-'', Digit, Digit, Lit CHR '':'', Digit, Digit] s
              \<and> digits_val 0 (take 2 (drop 1 s)) \<le> 23 \<and> digits_val 0 (drop 4 s) \<le> 59
        then Some (Some (- MakeTime (digits_val 0 (take 2 (drop 1 s))) (digits_val 0 (drop 4 s)) 0 0))
      else None)"

definition legal_date :: "int \<times> int \<times> int \<Rightarrow> bool" where
  "legal_date ymd =
     (case ymd of (y, m, d) \<Rightarrow> 1 \<le> m \<and> m \<le> 12 \<and> 1 \<le> d \<and> d \<le> DaysInMonth y m)"

text \<open>Hour 24 is legal only as 24:00:00.000, the end of the day.\<close>

definition legal_time :: "int \<times> int \<times> int \<times> int \<Rightarrow> bool" where
  "legal_time hmsf =
     (case hmsf of (h, m, s, f) \<Rightarrow>
        (h \<le> 23 \<and> m \<le> 59 \<and> s \<le> 59) \<or> (h = 24 \<and> m = 0 \<and> s = 0 \<and> f = 0))"

definition is_offset_start :: "char \<Rightarrow> bool" where
  "is_offset_start c = (c = CHR ''Z'' \<or> c = CHR ''+'' \<or> c = CHR ''-'')"

definition Date_parse :: "tza \<Rightarrow> (string \<Rightarrow> int option) \<Rightarrow> string \<Rightarrow> int option" where
  "Date_parse z legacy s =
     (let d_str = takeWhile (\<lambda>c. c \<noteq> CHR ''T'') s;
          rest = dropWhile (\<lambda>c. c \<noteq> CHR ''T'') s
      in case parse_date_form d_str of
           None \<Rightarrow> legacy s
         | Some ymd \<Rightarrow>
             if \<not> legal_date ymd then legacy s
             else (case ymd of (y, m, d) \<Rightarrow>
               if rest = [] then TimeClip (MakeDate (MakeDay y m d) 0)
               else
                 (let t_str = takeWhile (\<lambda>c. \<not> is_offset_start c) (tl rest);
                      o_str = dropWhile (\<lambda>c. \<not> is_offset_start c) (tl rest)
                  in case parse_time_form t_str of
                       None \<Rightarrow> legacy s
                     | Some hmsf \<Rightarrow>
                         if \<not> legal_time hmsf then legacy s
                         else (case hmsf of (h, mi, sec, f) \<Rightarrow>
                           (case parse_offset_form o_str of
                              None \<Rightarrow> legacy s
                            | Some None \<Rightarrow>
                                TimeClip (UTC z (MakeDate (MakeDay y m d) (MakeTime h mi sec f)))
                            | Some (Some off) \<Rightarrow>
                                TimeClip (MakeDate (MakeDay y m d) (MakeTime h mi sec f) - off))))))"

text \<open>\<^verbatim>\<open>new Date(value)\<close> on a number, and \<^verbatim>\<open>getTime() + ms\<close> on a date that may be
  invalid (NaN plus a number is NaN).\<close>

definition new_Date_number :: "int option \<Rightarrow> int option" where
  "new_Date_number v = (case v of None \<Rightarrow> None | Some t \<Rightarrow> TimeClip t)"

definition plus_ms :: "int option \<Rightarrow> int \<Rightarrow> int option" where
  "plus_ms v ms = (case v of None \<Rightarrow> None | Some t \<Rightarrow> Some (t + ms))"

section \<open>The calendar gateway and the host\<close>

text \<open>An exception is a JavaScript error object, of which the handlers read
  \<^verbatim>\<open>code\<close> and \<^verbatim>\<open>message\<close>. \<^verbatim>\<open>error.code === 401\<close> is strict equality: it holds
  of the number 401 only.\<close>

datatype js_code = CodeUndefined | CodeNum int | CodeStr string

record js_error =
  code :: js_code
  message :: string

definition RangeError_invalid_time :: js_error where
  "RangeError_invalid_time = \<lparr>code = CodeUndefined, message = ''Invalid time value''\<rparr>"

text \<open>An event as the provider returns it.\<close>

record event_time =
  et_dateTime :: "string option"
  et_date :: "string option"

record provider_event =
  ev_summary :: "string option"
  ev_start :: event_time
  ev_end :: event_time

text \<open>The argument and the result of \<^verbatim>\<open>calendar.events.list\<close>.\<close>

record list_params =
  l_calendarId :: string
  l_timeMin :: string
  l_timeMax :: string
  l_timeZone :: string
  l_singleEvents :: bool
  l_orderBy :: "string option"

record list_response =
  items :: "provider_event list option"

text \<open>The event the schedule handler composes, and the argument and the result of
  \<^verbatim>\<open>calendar.events.insert\<close>.\<close>

record event_date =
  dateTime :: string
  timeZone :: string

record reminder =
  rem_method :: string
  minutes :: int

record reminders =
  useDefault :: bool
  overrides :: "reminder list"

record create_request =
  requestId :: string
  conferenceSolutionKey :: string

record booking_event =
  summary :: string
  description :: string
  start :: event_date
  end' :: event_date
  attendees :: "string list"
  reminders :: reminders
  conferenceData :: create_request

record insert_params =
  i_calendarId :: string
  resource :: booking_event
  conferenceDataVersion :: int
  sendUpdates :: string

record insert_response =
  htmlLink :: "string option"

text \<open>
  Everything outside the process is a parameter: the environment variable, the token
  file (the result of \<^verbatim>\<open>fs.readFile\<close>), \<^verbatim>\<open>JSON.parse\<close>, the server's time zone, the
  fallback of the date parser, the clock, and the two calls of the provider, each of
  which returns or throws.
\<close>

record host =
  GOOGLE_REFRESH_TOKEN :: "string option"
  fs_readFile :: "js_error + string"
  JSON_parse :: "string \<Rightarrow> js_error + json"
  LocalTZA :: tza
  legacy_parse :: "string \<Rightarrow> int option"
  Date_now :: int
  events_list :: "list_params \<Rightarrow> js_error + list_response"
  events_insert :: "insert_params \<Rightarrow> js_error + insert_response"

text \<open>The process-wide OAuth2 client: the handlers read its \<^verbatim>\<open>credentials\<close>
  property, \<^verbatim>\<open>setCredentials\<close> assigns it.\<close>

record oauth2Client =
  credentials :: "json option"

text \<open>The calls a function makes outside the process, in order.\<close>

datatype effect =
    ReadFile
  | SetCredentials json
  | EventsList list_params
  | EventsInsert insert_params

definition setCredentials :: "oauth2Client \<Rightarrow> json \<Rightarrow> oauth2Client" where
  "setCredentials c tokens = c\<lparr>credentials := Some tokens\<rparr>"

section \<open>loadTokens\<close>

text \<open>The body of the \<^verbatim>\<open>try\<close> block: read the token file and parse it. Either step
  may throw.\<close>

definition read_tokens :: "host \<Rightarrow> js_error + json" where
  "read_tokens h =
     (case fs_readFile h of
        Inl err \<Rightarrow> Inl err
      | Inr content \<Rightarrow> JSON_parse h content)"

text \<open>\<open>loadTokens\<close> returns its boolean, the client and the calls made, or throws
  (\<open>Inl\<close>).\<close>

definition loadTokens ::
  "host \<Rightarrow> oauth2Client \<Rightarrow> js_error + (bool \<times> oauth2Client \<times> effect list)" where
  "loadTokens h c =
     (if truthy_str (GOOGLE_REFRESH_TOKEN h) then
        (let tokens = JObj [(''refresh_token'', JStr (the (GOOGLE_REFRESH_TOKEN h)))]
         in Inr (True, setCredentials c tokens, [SetCredentials tokens]))
      else
        (case read_tokens h of
           Inr tokens \<Rightarrow> Inr (True, setCredentials c tokens, [ReadFile, SetCredentials tokens])
         | Inl err \<Rightarrow> Inr (False, c, [ReadFile])))"

section \<open>The handlers\<close>

text \<open>A busy slot of the availability response: \<^verbatim>\<open>start\<close>, \<^verbatim>\<open>end\<close> and
  \<^verbatim>\<open>summary\<close>.\<close>

record busy_slot =
  slot_start :: "string option"
  slot_end :: "string option"
  slot_summary :: string

text \<open>A response is a status and a JSON body: \<^verbatim>\<open>{success: false, message}\<close>,
  \<^verbatim>\<open>{success: true, slots}\<close> or \<^verbatim>\<open>{success: true, message, link}\<close>.\<close>

datatype body =
    Failure string
  | Slots "busy_slot list"
  | Scheduled string "string option"

record response =
  status :: nat
  body :: body

definition to_busy_slot :: "provider_event \<Rightarrow> busy_slot" where
  "to_busy_slot event =
     \<lparr>slot_start = js_or (et_dateTime (ev_start event)) (et_date (ev_start event)),
      slot_end = js_or (et_dateTime (ev_end event)) (et_date (ev_end event)),
      slot_summary = ''Ocupado''\<rparr>"

definition TIMEZONE :: string where
  "TIMEZONE = ''America/Sao_Paulo''"

definition not_authenticated :: response where
  "not_authenticated =
     \<lparr>status = 401, body = Failure ''Backend not authenticated. Please visit /auth''\<rparr>"

text \<open>The \<^verbatim>\<open>try\<close> block of \<^verbatim>\<open>GET /api/availability\<close>, after the credentials check:
  \<open>c\<close> holds credentials, \<open>tr\<close> is what was done so far.\<close>

definition availability_query ::
  "host \<Rightarrow> oauth2Client \<Rightarrow> effect list \<Rightarrow> string
     \<Rightarrow> (js_error + response) \<times> oauth2Client \<times> effect list" where
  "availability_query h c tr date =
     (let dayStart = setHours (LocalTZA h) (Date_parse (LocalTZA h) (legacy_parse h) date) 0 0 0 0
      in case toISOString dayStart of
           None \<Rightarrow> (Inl RangeError_invalid_time, c, tr)
         | Some timeMin \<Rightarrow>
             (let dayEnd = setHours (LocalTZA h) (Date_parse (LocalTZA h) (legacy_parse h) date)
                             23 59 59 999
              in case toISOString dayEnd of
                   None \<Rightarrow> (Inl RangeError_invalid_time, c, tr)
                 | Some timeMax \<Rightarrow>
                     (let p = \<lparr>l_calendarId = ''primary'', l_timeMin = timeMin,
                               l_timeMax = timeMax, l_timeZone = TIMEZONE,
                               l_singleEvents = True, l_orderBy = Some ''startTime''\<rparr>
                      in case events_list h p of
                           Inl err \<Rightarrow> (Inl err, c, tr @ [EventsList p])
                         | Inr r \<Rightarrow>
                             (let events = (case items r of None \<Rightarrow> [] | Some xs \<Rightarrow> xs);
                                  busySlots = map to_busy_slot events
                              in (Inr \<lparr>status = 200, body = Slots busySlots\<rparr>, c,
                                  tr @ [EventsList p])))))"

definition availability_try ::
  "host \<Rightarrow> oauth2Client \<Rightarrow> string \<Rightarrow> (js_error + response) \<times> oauth2Client \<times> effect list" where
  "availability_try h c date =
     (if \<not> truthy (credentials c) then
        (case loadTokens h c of
           Inl err \<Rightarrow> (Inl err, c, [])
         | Inr (loaded, c', tr) \<Rightarrow>
             if \<not> truthy (credentials c') then (Inr not_authenticated, c', tr)
             else availability_query h c' tr date)
      else availability_query h c [] date)"

definition availability ::
  "host \<Rightarrow> oauth2Client \<Rightarrow> string option \<Rightarrow> response \<times> oauth2Client \<times> effect list" where
  "availability h c date =
     (if \<not> truthy_str date then
        (\<lparr>status = 400, body = Failure ''Missing required query parameter: date''\<rparr>, c, [])
      else
        (case availability_try h c (the date) of
           (Inr res, c', tr) \<Rightarrow> (res, c', tr)
         | (Inl error, c', tr) \<Rightarrow>
             (\<lparr>status = 500,
               body = Failure (''Error checking availability: '' @ message error)\<rparr>, c', tr)))"

text \<open>The body of \<^verbatim>\<open>POST /api/schedule\<close>.\<close>

record schedule_body =
  b_name :: "string option"
  b_email :: "string option"
  b_date :: "string option"

definition normalize_date :: "string \<Rightarrow> string" where
  "normalize_date d = (if test_naive d then d @ ''-03:00'' else d)"

text \<open>The event literal. The rocket of the summary and the accented letters are UTF-8
  bytes.\<close>

definition compose_event :: "host \<Rightarrow> string \<Rightarrow> string \<Rightarrow> string \<Rightarrow> string \<Rightarrow> booking_event" where
  "compose_event h nm em startISO endISO =
     \<lparr>summary = [CHR 0xF0, CHR 0x9F, CHR 0x9A, CHR 0x80] @ '' Demo Playlix: '' @ nm,
      description =
        ''Interesse em demonstra'' @ [CHR 0xC3, CHR 0xA7, CHR 0xC3, CHR 0xA3]
          @ ''o da plataforma.'' @ [CHR 0x0A, CHR 0x0A] @ ''Cliente: '' @ nm
          @ [CHR 0x0A] @ ''Email: '' @ em @ [CHR 0x0A] @ ''Agendado via IA Zek.'',
      start = \<lparr>dateTime = startISO, timeZone = ''America/Sao_Paulo''\<rparr>,
      end' = \<lparr>dateTime = endISO, timeZone = ''America/Sao_Paulo''\<rparr>,
      attendees = [em],
      reminders =
        \<lparr>useDefault = False,
         overrides = [\<lparr>rem_method = ''email'', minutes = 24 * 60\<rparr>,
                      \<lparr>rem_method = ''popup'', minutes = 10\<rparr>]\<rparr>,
      conferenceData =
        \<lparr>requestId = ''meet-'' @ dec (Date_now h), conferenceSolutionKey = ''hangoutsMeet''\<rparr>\<rparr>"

definition conflict_response :: response where
  "conflict_response =
     \<lparr>status = 409,
      body = Failure (''Hor'' @ [CHR 0xC3, CHR 0xA1] @ ''rio indispon'' @ [CHR 0xC3, CHR 0xAD]
                      @ ''vel! Algu'' @ [CHR 0xC3, CHR 0xA9] @ ''m acabou de agendar.'')\<rparr>"

text \<open>The \<^verbatim>\<open>try\<close> block of the schedule handler after the credentials check.\<close>

definition schedule_booking ::
  "host \<Rightarrow> oauth2Client \<Rightarrow> effect list \<Rightarrow> string \<Rightarrow> string \<Rightarrow> string
     \<Rightarrow> (js_error + response) \<times> oauth2Client \<times> effect list" where
  "schedule_booking h c tr nm em d =
     (let startDateTime = Date_parse (LocalTZA h) (legacy_parse h) d;
          endDateTime = new_Date_number (plus_ms startDateTime (60 * 60 * 1000))
      in case toISOString startDateTime of
           None \<Rightarrow> (Inl RangeError_invalid_time, c, tr)
         | Some timeMin \<Rightarrow>
             (case toISOString endDateTime of
                None \<Rightarrow> (Inl RangeError_invalid_time, c, tr)
              | Some timeMax \<Rightarrow>
                  (let p = \<lparr>l_calendarId = ''primary'', l_timeMin = timeMin,
                            l_timeMax = timeMax, l_timeZone = ''America/Sao_Paulo'',
                            l_singleEvents = True, l_orderBy = None\<rparr>
                   in case events_list h p of
                        Inl err \<Rightarrow> (Inl err, c, tr @ [EventsList p])
                      | Inr conflictCheck \<Rightarrow>
                          if (case items conflictCheck of
                                None \<Rightarrow> False
                              | Some xs \<Rightarrow> length xs > 0)
                          then (Inr conflict_response, c, tr @ [EventsList p])
                          else
                            (let q = \<lparr>i_calendarId = ''primary'',
                                      resource = compose_event h nm em timeMin timeMax,
                                      conferenceDataVersion = 1, sendUpdates = ''all''\<rparr>
                             in case events_insert h q of
                                  Inl err \<Rightarrow> (Inl err, c, tr @ [EventsList p, EventsInsert q])
                                | Inr r \<Rightarrow>
                                    (Inr \<lparr>status = 200,
                                          body = Scheduled ''Evento agendado com sucesso!''
                                                   (htmlLink r)\<rparr>,
                                     c, tr @ [EventsList p, EventsInsert q])))))"

definition schedule_try ::
  "host \<Rightarrow> oauth2Client \<Rightarrow> string \<Rightarrow> string \<Rightarrow> string
     \<Rightarrow> (js_error + response) \<times> oauth2Client \<times> effect list" where
  "schedule_try h c nm em d =
     (if \<not> truthy (credentials c) then
        (case loadTokens h c of
           Inl err \<Rightarrow> (Inl err, c, [])
         | Inr (loaded, c', tr) \<Rightarrow>
             if \<not> truthy (credentials c') then (Inr not_authenticated, c', tr)
             else schedule_booking h c' tr nm em d)
      else schedule_booking h c [] nm em d)"

text \<open>The \<^verbatim>\<open>catch\<close> block of the schedule handler.\<close>

definition schedule_catch :: "js_error \<Rightarrow> response" where
  "schedule_catch error =
     (if code error = CodeNum 401 \<or> includes_str (message error) ''invalid_grant'' then
        \<lparr>status = 401,
         body = Failure ''Authentication expired. Admin needs to visit /auth again.''\<rparr>
      else
        \<lparr>status = 500,
         body = Failure (''Error contacting Google Calendar: '' @ message error)\<rparr>)"

definition schedule ::
  "host \<Rightarrow> oauth2Client \<Rightarrow> schedule_body \<Rightarrow> response \<times> oauth2Client \<times> effect list" where
  "schedule h c req =
     (if \<not> truthy_str (b_name req) \<or> \<not> truthy_str (b_email req) \<or> \<not> truthy_str (b_date req) then
        (\<lparr>status = 400, body = Failure ''Missing required fields: name, email, date''\<rparr>, c, [])
      else
        (case schedule_try h c (the (b_name req)) (the (b_email req))
                (normalize_date (the (b_date req))) of
           (Inr res, c', tr) \<Rightarrow> (res, c', tr)
         | (Inl error, c', tr) \<Rightarrow> (schedule_catch error, c', tr)))"

section \<open>Observing the calls of a request\<close>

fun is_gateway_call :: "effect \<Rightarrow> bool" where
  "is_gateway_call (EventsList p) = True"
| "is_gateway_call (EventsInsert q) = True"
| "is_gateway_call ReadFile = False"
| "is_gateway_call (SetCredentials t) = False"

fun is_insert_call :: "effect \<Rightarrow> bool" where
  "is_insert_call (EventsInsert q) = True"
| "is_insert_call (EventsList p) = False"
| "is_insert_call ReadFile = False"
| "is_insert_call (SetCredentials t) = False"

text \<open>The year, month, day, hour, minute and second written in a string of the shape
  \<^verbatim>\<open>YYYY-MM-DDTHH:MM:SS\<close>.\<close>

definition naive_ymd :: "string \<Rightarrow> int \<times> int \<times> int" where
  "naive_ymd d =
     (digits_val 0 (take 4 d), digits_val 0 (take 2 (drop 5 d)), digits_val 0 (take 2 (drop 8 d)))"

definition naive_hms :: "string \<Rightarrow> int \<times> int \<times> int \<times> int" where
  "naive_hms d =
     (digits_val 0 (take 2 (drop 11 d)), digits_val 0 (take 2 (drop 14 d)),
      digits_val 0 (take 2 (drop 17 d)), 0)"

section \<open>Example hosts\<close>

text \<open>A host with no token anywhere, an empty calendar and a provider that accepts
  every insert; its server runs on UTC. The variants run on America/Sao\_Paulo, hold a
  token in the environment or in the file, or have a provider that fails.\<close>

definition enoent :: js_error where
  "enoent = \<lparr>code = CodeStr ''ENOENT'', message = ''ENOENT: no such file or directory''\<rparr>"

definition host_utc :: host where
  "host_utc =
     \<lparr>GOOGLE_REFRESH_TOKEN = None,
      fs_readFile = Inl enoent,
      JSON_parse = (\<lambda>s. if s = ''{}'' then Inr (JObj []) else if s = ''null'' then Inr JNull
                         else Inl \<lparr>code = CodeUndefined, message = ''Unexpected token''\<rparr>),
      LocalTZA = (\<lambda>t u. 0),
      legacy_parse = (\<lambda>s. None),
      Date_now = 1766620800000,
      events_list = (\<lambda>p. Inr \<lparr>items = Some []\<rparr>),
      events_insert = (\<lambda>q. Inr \<lparr>htmlLink = Some ''https://calendar.example/ev1''\<rparr>)\<rparr>"

definition host_sao_paulo :: host where
  "host_sao_paulo = host_utc\<lparr>LocalTZA := (\<lambda>t u. - 10800000)\<rparr>"

definition host_env :: host where
  "host_env = host_utc\<lparr>GOOGLE_REFRESH_TOKEN := Some ''1//refresh''\<rparr>"

definition host_file :: host where
  "host_file = host_utc\<lparr>fs_readFile := Inr ''{}''\<rparr>"

definition host_corrupt :: host where
  "host_corrupt = host_utc\<lparr>fs_readFile := Inr ''{not json''\<rparr>"

definition some_event :: provider_event where
  "some_event =
     \<lparr>ev_summary = Some ''Dentist'',
      ev_start = \<lparr>et_dateTime = Some ''2026-01-10T14:30:00-03:00'', et_date = None\<rparr>,
      ev_end = \<lparr>et_dateTime = Some ''2026-01-10T15:30:00-03:00'', et_date = None\<rparr>\<rparr>"

definition host_busy :: host where
  "host_busy = host_env\<lparr>events_list := (\<lambda>p. Inr \<lparr>items = Some [some_event]\<rparr>)\<rparr>"

definition host_expired :: host where
  "host_expired =
     host_env\<lparr>events_list := (\<lambda>p. Inl \<lparr>code = CodeNum 400, message = ''invalid_grant''\<rparr>)\<rparr>"

definition host_quota :: host where
  "host_quota =
     host_env\<lparr>events_insert :=
                (\<lambda>q. Inl \<lparr>code = CodeNum 403, message = ''Rate Limit Exceeded''\<rparr>)\<rparr>"

definition no_client :: oauth2Client where
  "no_client = \<lparr>credentials = None\<rparr>"

text \<open>The client as \<^verbatim>\<open>new google.auth.OAuth2(...)\<close> leaves it: the library starts
  the \<^verbatim>\<open>credentials\<close> property as the empty object \<^verbatim>\<open>{}\<close>, which is truthy, and
  nothing in the source assigns the property but \<^verbatim>\<open>setCredentials\<close>.\<close>

definition fresh_client :: oauth2Client where
  "fresh_client = \<lparr>credentials = Some (JObj [])\<rparr>"

text \<open>A host with no token anywhere whose provider refuses every call, as the library
  does when the client holds no token.\<close>

definition no_access :: js_error where
  "no_access =
     \<lparr>code = CodeUndefined,
      message = ''No access, refresh token, API key or refresh handler callback is set.''\<rparr>"

definition host_no_access :: host where
  "host_no_access =
     host_utc\<lparr>events_list := (\<lambda>p. Inl no_access), events_insert := (\<lambda>q. Inl no_access)\<rparr>"

text \<open>An all-day event, which has a \<^verbatim>\<open>date\<close> and no \<^verbatim>\<open>dateTime\<close>, and a calendar
  that holds it after a timed one.\<close>

definition all_day_event :: provider_event where
  "all_day_event =
     \<lparr>ev_summary = Some ''Holiday'',
      ev_start = \<lparr>et_dateTime = None, et_date = Some ''2026-01-10''\<rparr>,
      ev_end = \<lparr>et_dateTime = None, et_date = Some ''2026-01-11''\<rparr>\<rparr>"

definition host_two_events :: host where
  "host_two_events =
     host_env\<lparr>events_list := (\<lambda>p. Inr \<lparr>items = Some [some_event, all_day_event]\<rparr>)\<rparr>"

definition ana :: schedule_body where
  "ana = \<lparr>b_name = Some ''Ana'', b_email = Some ''ana@x.com'',
          b_date = Some ''2026-01-10T14:00:00''\<rparr>"

section \<open>Auxiliary facts\<close>

lemma insert_is_gateway: "is_insert_call e \<Longrightarrow> is_gateway_call e"
  by (cases e) simp_all

lemma loadTokens_Inr:
  "\<exists>ok c' tr. loadTokens h c = Inr (ok, c', tr) \<and> (\<forall>e \<in> set tr. \<not> is_gateway_call e)"
  by (auto simp: loadTokens_def Let_def split: sum.splits)

lemma toISOString_Some: "\<exists>s. toISOString (Some t) = Some s"
  by (cases "civil_from_days (Day t)") (simp add: toISOString_def Let_def)

text \<open>What the booking part does, case by case.\<close>

lemma schedule_booking_cases:
  obtains
    (invalid) "schedule_booking h c tr nm em d = (Inl RangeError_invalid_time, c, tr)"
  | (list_fails) t lo hi p err where
      "Date_parse (LocalTZA h) (legacy_parse h) d = Some t"
      "toISOString (Some t) = Some lo" "toISOString (TimeClip (t + 3600000)) = Some hi"
      "p = \<lparr>l_calendarId = ''primary'', l_timeMin = lo, l_timeMax = hi,
            l_timeZone = ''America/Sao_Paulo'', l_singleEvents = True, l_orderBy = None\<rparr>"
      "events_list h p = Inl err"
      "schedule_booking h c tr nm em d = (Inl err, c, tr @ [EventsList p])"
  | (conflict) t lo hi p r x xs where
      "Date_parse (LocalTZA h) (legacy_parse h) d = Some t"
      "toISOString (Some t) = Some lo" "toISOString (TimeClip (t + 3600000)) = Some hi"
      "p = \<lparr>l_calendarId = ''primary'', l_timeMin = lo, l_timeMax = hi,
            l_timeZone = ''America/Sao_Paulo'', l_singleEvents = True, l_orderBy = None\<rparr>"
      "events_list h p = Inr r" "items r = Some (x # xs)"
      "schedule_booking h c tr nm em d = (Inr conflict_response, c, tr @ [EventsList p])"
  | (insert_fails) t lo hi p r q err where
      "Date_parse (LocalTZA h) (legacy_parse h) d = Some t"
      "toISOString (Some t) = Some lo" "toISOString (TimeClip (t + 3600000)) = Some hi"
      "p = \<lparr>l_calendarId = ''primary'', l_timeMin = lo, l_timeMax = hi,
            l_timeZone = ''America/Sao_Paulo'', l_singleEvents = True, l_orderBy = None\<rparr>"
      "events_list h p = Inr r" "items r = None \<or> items r = Some []"
      "q = \<lparr>i_calendarId = ''primary'', resource = compose_event h nm em lo hi,
            conferenceDataVersion = 1, sendUpdates = ''all''\<rparr>"
      "events_insert h q = Inl err"
      "schedule_booking h c tr nm em d = (Inl err, c, tr @ [EventsList p, EventsInsert q])"
  | (booked) t lo hi p r q r' where
      "Date_parse (LocalTZA h) (legacy_parse h) d = Some t"
      "toISOString (Some t) = Some lo" "toISOString (TimeClip (t + 3600000)) = Some hi"
      "p = \<lparr>l_calendarId = ''primary'', l_timeMin = lo, l_timeMax = hi,
            l_timeZone = ''America/Sao_Paulo'', l_singleEvents = True, l_orderBy = None\<rparr>"
      "events_list h p = Inr r" "items r = None \<or> items r = Some []"
      "q = \<lparr>i_calendarId = ''primary'', resource = compose_event h nm em lo hi,
            conferenceDataVersion = 1, sendUpdates = ''all''\<rparr>"
      "events_insert h q = Inr r'"
      "schedule_booking h c tr nm em d =
         (Inr \<lparr>status = 200, body = Scheduled ''Evento agendado com sucesso!'' (htmlLink r')\<rparr>,
          c, tr @ [EventsList p, EventsInsert q])"
proof (cases "Date_parse (LocalTZA h) (legacy_parse h) d")
  case None
  then have "schedule_booking h c tr nm em d = (Inl RangeError_invalid_time, c, tr)"
    by (simp add: schedule_booking_def toISOString_def)
  then show ?thesis by (rule invalid)
next
  case (Some t)
  obtain lo where lo: "toISOString (Some t) = Some lo"
    using toISOString_Some by blast
  show ?thesis
  proof (cases "toISOString (TimeClip (t + 3600000))")
    case None
    then have "schedule_booking h c tr nm em d = (Inl RangeError_invalid_time, c, tr)"
      using Some lo by (simp add: schedule_booking_def new_Date_number_def plus_ms_def)
    then show ?thesis by (rule invalid)
  next
    case hi: (Some hi)
    define p where "p = \<lparr>l_calendarId = ''primary'', l_timeMin = lo, l_timeMax = hi,
            l_timeZone = ''America/Sao_Paulo'', l_singleEvents = True, l_orderBy = None\<rparr>"
    define q where "q = \<lparr>i_calendarId = ''primary'', resource = compose_event h nm em lo hi,
            conferenceDataVersion = 1, sendUpdates = ''all''\<rparr>"
    have unf: "schedule_booking h c tr nm em d =
      (case events_list h p of
         Inl err \<Rightarrow> (Inl err, c, tr @ [EventsList p])
       | Inr conflictCheck \<Rightarrow>
           if (case items conflictCheck of None \<Rightarrow> False | Some xs \<Rightarrow> length xs > 0)
           then (Inr conflict_response, c, tr @ [EventsList p])
           else (case events_insert h q of
                   Inl err \<Rightarrow> (Inl err, c, tr @ [EventsList p, EventsInsert q])
                 | Inr r \<Rightarrow>
                     (Inr \<lparr>status = 200,
                           body = Scheduled ''Evento agendado com sucesso!'' (htmlLink r)\<rparr>,
                      c, tr @ [EventsList p, EventsInsert q])))"
      unfolding schedule_booking_def p_def q_def Let_def
      using Some lo hi by (simp add: new_Date_number_def plus_ms_def)
    show ?thesis
    proof (cases "events_list h p")
      case (Inl err)
      with unf have "schedule_booking h c tr nm em d = (Inl err, c, tr @ [EventsList p])"
        by simp
      with Some lo hi p_def Inl show ?thesis by (rule list_fails)
    next
      case (Inr r)
      show ?thesis
      proof (cases "items r")
        case None
        note nit = None
        show ?thesis
        proof (cases "events_insert h q")
          case (Inl err)
          with unf Inr nit
          have "schedule_booking h c tr nm em d = (Inl err, c, tr @ [EventsList p, EventsInsert q])"
            by simp
          with Some lo hi p_def Inr nit q_def Inl show ?thesis
            by (intro insert_fails [of t lo hi p r q err]) auto
        next
          case (Inr r')
          with unf \<open>events_list h p = Inr r\<close> nit
          have "schedule_booking h c tr nm em d =
              (Inr \<lparr>status = 200, body = Scheduled ''Evento agendado com sucesso!'' (htmlLink r')\<rparr>,
               c, tr @ [EventsList p, EventsInsert q])"
            by simp
          with Some lo hi p_def \<open>events_list h p = Inr r\<close> nit q_def Inr show ?thesis
            by (intro booked [of t lo hi p r q r']) auto
        qed
      next
        case (Some xs)
        note sit = Some
        show ?thesis
        proof (cases xs)
          case Nil
          show ?thesis
          proof (cases "events_insert h q")
            case (Inl err)
            with unf Inr sit Nil
            have "schedule_booking h c tr nm em d = (Inl err, c, tr @ [EventsList p, EventsInsert q])"
              by simp
            with \<open>Date_parse (LocalTZA h) (legacy_parse h) d = Some t\<close> lo hi p_def Inr sit Nil q_def Inl
            show ?thesis
              by (intro insert_fails [of t lo hi p r q err]) auto
          next
            case (Inr r')
            with unf \<open>events_list h p = Inr r\<close> sit Nil
            have "schedule_booking h c tr nm em d =
                (Inr \<lparr>status = 200, body = Scheduled ''Evento agendado com sucesso!'' (htmlLink r')\<rparr>,
                 c, tr @ [EventsList p, EventsInsert q])"
              by simp
            with \<open>Date_parse (LocalTZA h) (legacy_parse h) d = Some t\<close> lo hi p_def
              \<open>events_list h p = Inr r\<close> sit Nil q_def Inr show ?thesis
              by (intro booked [of t lo hi p r q r']) auto
          qed
        next
          case (Cons x xs')
          with unf Inr sit
          have "schedule_booking h c tr nm em d = (Inr conflict_response, c, tr @ [EventsList p])"
            by simp
          with \<open>Date_parse (LocalTZA h) (legacy_parse h) d = Some t\<close> lo hi p_def Inr sit Cons
          show ?thesis
            by (intro conflict [of t lo hi p r x xs']) auto
        qed
      qed
    qed
  qed
qed

text \<open>What the schedule handler does with a request that passes validation.\<close>

lemma schedule_valid_cases:
  assumes "truthy_str (b_name req)" "truthy_str (b_email req)" "truthy_str (b_date req)"
  obtains
    (unauth) c' tr where
      "schedule h c req = (not_authenticated, c', tr)" "\<forall>e \<in> set tr. \<not> is_gateway_call e"
  | (proceed) c1 tr1 nm em d where
      "b_name req = Some nm" "b_email req = Some em" "b_date req = Some d"
      "\<forall>e \<in> set tr1. \<not> is_gateway_call e"
      "schedule h c req =
         (case schedule_booking h c1 tr1 nm em (normalize_date d) of
            (Inr res, c', tr) \<Rightarrow> (res, c', tr)
          | (Inl error, c', tr) \<Rightarrow> (schedule_catch error, c', tr))"
proof -
  obtain nm em d where f: "b_name req = Some nm" "b_email req = Some em" "b_date req = Some d"
    using assms by (cases "b_name req"; cases "b_email req"; cases "b_date req") auto
  have unf: "schedule h c req =
      (case schedule_try h c nm em (normalize_date d) of
         (Inr res, c', tr) \<Rightarrow> (res, c', tr)
       | (Inl error, c', tr) \<Rightarrow> (schedule_catch error, c', tr))"
    using assms f by (simp add: schedule_def)
  show ?thesis
  proof (cases "truthy (credentials c)")
    case True
    then have "schedule_try h c nm em (normalize_date d) =
        schedule_booking h c [] nm em (normalize_date d)"
      by (simp add: schedule_try_def)
    with unf f show ?thesis
      by (intro proceed [of nm em d "[]" c]) auto
  next
    case False
    obtain ok c' tr where l: "loadTokens h c = Inr (ok, c', tr)"
      and g: "\<forall>e \<in> set tr. \<not> is_gateway_call e"
      using loadTokens_Inr by blast
    show ?thesis
    proof (cases "truthy (credentials c')")
      case True
      with False l have "schedule_try h c nm em (normalize_date d) =
          schedule_booking h c' tr nm em (normalize_date d)"
        by (simp add: schedule_try_def)
      with unf f g show ?thesis
        by (intro proceed [of nm em d tr c']) auto
    next
      case nt: False
      with False l have "schedule_try h c nm em (normalize_date d) =
          (Inr not_authenticated, c', tr)"
        by (simp add: schedule_try_def)
      with unf have "schedule h c req = (not_authenticated, c', tr)"
        by simp
      then show ?thesis using g by (rule unauth)
    qed
  qed
qed

lemma not_valid_schedule:
  assumes "\<not> (truthy_str (b_name req) \<and> truthy_str (b_email req) \<and> truthy_str (b_date req))"
  shows "schedule h c req =
           (\<lparr>status = 400, body = Failure ''Missing required fields: name, email, date''\<rparr>, c, [])"
  using assms by (auto simp: schedule_def)

text \<open>What the availability handler does once it has called the provider.\<close>

lemma availability_query_cases:
  "(\<exists>err. availability_query h c tr d = (Inl err, c, tr)) \<or>
   (\<exists>p'. availability_query h c tr d =
      ((case events_list h p' of
          Inl err \<Rightarrow> Inl err
        | Inr r \<Rightarrow> Inr \<lparr>status = 200,
                       body = Slots (map to_busy_slot (case items r of None \<Rightarrow> [] | Some xs \<Rightarrow> xs))\<rparr>),
       c, tr @ [EventsList p']))"
  by (auto simp: availability_query_def Let_def split: option.splits sum.splits)

lemma availability_try_cases:
  "(\<exists>c' tr res. availability_try h c d = (res, c', tr) \<and> (\<forall>e \<in> set tr. \<not> is_gateway_call e)) \<or>
   (\<exists>c' tr p'. (\<forall>e \<in> set tr. \<not> is_gateway_call e) \<and> availability_try h c d =
      ((case events_list h p' of
          Inl err \<Rightarrow> Inl err
        | Inr r \<Rightarrow> Inr \<lparr>status = 200,
                       body = Slots (map to_busy_slot (case items r of None \<Rightarrow> [] | Some xs \<Rightarrow> xs))\<rparr>),
       c', tr @ [EventsList p']))"
proof (cases "truthy (credentials c)")
  case True
  then have "availability_try h c d = availability_query h c [] d"
    by (simp add: availability_try_def)
  then show ?thesis
    using availability_query_cases [of h c "[]" d] by auto
next
  case False
  obtain ok c' tr where l: "loadTokens h c = Inr (ok, c', tr)"
    and g: "\<forall>e \<in> set tr. \<not> is_gateway_call e"
    using loadTokens_Inr by blast
  show ?thesis
  proof (cases "truthy (credentials c')")
    case True
    with False l have "availability_try h c d = availability_query h c' tr d"
      by (simp add: availability_try_def)
    then show ?thesis
      using availability_query_cases [of h c' tr d] g by metis
  next
    case nt: False
    with False l have "availability_try h c d = (Inr not_authenticated, c', tr)"
      by (simp add: availability_try_def)
    then show ?thesis using g by blast
  qed
qed

lemma availability_listed:
  assumes "EventsList p \<in> set (snd (snd (availability h c date)))"
  shows "fst (availability h c date) =
     (case events_list h p of
        Inl err \<Rightarrow> \<lparr>status = 500, body = Failure (''Error checking availability: '' @ message err)\<rparr>
      | Inr r \<Rightarrow> \<lparr>status = 200,
                  body = Slots (map to_busy_slot (case items r of None \<Rightarrow> [] | Some xs \<Rightarrow> xs))\<rparr>)"
proof (cases "truthy_str date")
  case False
  with assms show ?thesis by (simp add: availability_def)
next
  case True
  then have unf: "availability h c date =
      (case availability_try h c (the date) of
         (Inr res, c', tr) \<Rightarrow> (res, c', tr)
       | (Inl error, c', tr) \<Rightarrow>
           (\<lparr>status = 500, body = Failure (''Error checking availability: '' @ message error)\<rparr>,
            c', tr))"
    by (simp add: availability_def)
  from availability_try_cases [of h c "the date"] show ?thesis
  proof (elim disjE exE conjE)
    fix c' tr res
    assume "availability_try h c (the date) = (res, c', tr)" "\<forall>e \<in> set tr. \<not> is_gateway_call e"
    with unf assms show ?thesis
      by (cases res) auto
  next
    fix c' tr p'
    assume g: "\<forall>e \<in> set tr. \<not> is_gateway_call e"
      and t: "availability_try h c (the date) =
       ((case events_list h p' of
          Inl err \<Rightarrow> Inl err
        | Inr r \<Rightarrow> Inr \<lparr>status = 200,
                       body = Slots (map to_busy_slot (case items r of None \<Rightarrow> [] | Some xs \<Rightarrow> xs))\<rparr>),
       c', tr @ [EventsList p'])"
    have "snd (snd (availability h c date)) = tr @ [EventsList p']"
      using unf t by (cases "events_list h p'") simp_all
    with assms g have "p = p'" by auto
    with unf t show ?thesis
      by (cases "events_list h p'") simp_all
  qed
qed

text \<open>The shape of the strings the regular expression accepts.\<close>

lemma match_atoms_length: "match_atoms as s \<Longrightarrow> length s = length as"
  by (induction as s rule: match_atoms.induct) auto

lemma match_Digit: "match_atoms (Digit # as) s \<longleftrightarrow> (\<exists>c cs. s = c # cs \<and> is_digit c \<and> match_atoms as cs)"
  by (cases s) auto

lemma match_Lit: "match_atoms (Lit x # as) s \<longleftrightarrow> (\<exists>cs. s = x # cs \<and> match_atoms as cs)"
  by (cases s) auto

lemma naive_shape:
  "test_naive d \<longleftrightarrow>
     (\<exists>y1 y2 y3 y4 m1 m2 d1 d2 h1 h2 i1 i2 s1 s2.
        d = [y1, y2, y3, y4, CHR ''-'', m1, m2, CHR ''-'', d1, d2, CHR ''T'',
             h1, h2, CHR '':'', i1, i2, CHR '':'', s1, s2] \<and>
        is_digit y1 \<and> is_digit y2 \<and> is_digit y3 \<and> is_digit y4 \<and> is_digit m1 \<and> is_digit m2 \<and>
        is_digit d1 \<and> is_digit d2 \<and> is_digit h1 \<and> is_digit h2 \<and> is_digit i1 \<and> is_digit i2 \<and>
        is_digit s1 \<and> is_digit s2)"
  unfolding test_naive_def naive_pattern_def match_Digit match_Lit
  by auto

lemma test_naive_length: "test_naive d \<Longrightarrow> length d = 19"
  by (auto simp: test_naive_def naive_pattern_def dest: match_atoms_length)

text \<open>Bounds: a legal date of the years 0 to 9999 is within the range of time values.\<close>

lemma digit_not_T [simp]: "is_digit c \<Longrightarrow> c \<noteq> CHR ''T''"
  by (auto simp: is_digit_def)

lemma digit_not_offset [simp]: "is_digit c \<Longrightarrow> \<not> is_offset_start c"
  by (auto simp: is_digit_def is_offset_start_def)

lemma digit_not_punct [simp]:
  "is_digit c \<Longrightarrow> c \<noteq> CHR ''-''" "is_digit c \<Longrightarrow> c \<noteq> CHR '':''" "is_digit c \<Longrightarrow> c \<noteq> CHR ''.''"
  "is_digit c \<Longrightarrow> c \<noteq> CHR ''+''"
  by (auto simp: is_digit_def)

lemma digit_val_bounds: "0 \<le> digit_val c \<and> digit_val c \<le> 9"
  by (simp add: digit_val_def)

lemma digits2_bounds: "0 \<le> digits_val 0 [a, b] \<and> digits_val 0 [a, b] \<le> 99"
  using digit_val_bounds [of a] digit_val_bounds [of b] by simp

lemma digits4_bounds: "0 \<le> digits_val 0 [a, b, c, d] \<and> digits_val 0 [a, b, c, d] \<le> 9999"
  using digit_val_bounds [of a] digit_val_bounds [of b] digit_val_bounds [of c]
    digit_val_bounds [of d] by simp

lemma DaysBeforeMonth_bounds:
  assumes "1 \<le> m" "m \<le> 12"
  shows "0 \<le> DaysBeforeMonth y m \<and> DaysBeforeMonth y m \<le> 335"
proof -
  from assms have "m = 1 \<or> m = 2 \<or> m = 3 \<or> m = 4 \<or> m = 5 \<or> m = 6 \<or> m = 7 \<or> m = 8 \<or> m = 9
      \<or> m = 10 \<or> m = 11 \<or> m = 12"
    by arith
  then show ?thesis
    by (elim disjE) (simp_all add: DaysBeforeMonth_def)
qed

lemma DayFromYear_bounds:
  assumes "0 \<le> y" "y \<le> 9999"
  shows "- 720000 \<le> DayFromYear y \<and> DayFromYear y \<le> 2940000"
proof -
  have a: "(- 1969) div 4 \<le> (y - 1969) div 4" "(y - 1969) div 4 \<le> 8030 div 4"
    using assms by (auto intro!: zdiv_mono1)
  have b: "(- 1901) div 100 \<le> (y - 1901) div 100" "(y - 1901) div 100 \<le> 8098 div 100"
    using assms by (auto intro!: zdiv_mono1)
  have c: "(- 1601) div 400 \<le> (y - 1601) div 400" "(y - 1601) div 400 \<le> 8398 div 400"
    using assms by (auto intro!: zdiv_mono1)
  show ?thesis
    using a b c assms unfolding DayFromYear_def by simp
qed

lemma legal_in_range:
  assumes "0 \<le> y" "y \<le> 9999" "legal_date (y, m, dd)" "legal_time (h, mi, s, f)"
    "0 \<le> h" "0 \<le> mi" "0 \<le> s" "0 \<le> f" "f \<le> 999" "- 86400000 \<le> off" "off \<le> 86400000"
  shows "TimeClip (MakeDate (MakeDay y m dd) (MakeTime h mi s f) - off) =
           Some (MakeDate (MakeDay y m dd) (MakeTime h mi s f) - off)"
proof -
  from assms(3) have m: "1 \<le> m" "m \<le> 12" and d: "1 \<le> dd" "dd \<le> 31"
    by (auto simp: legal_date_def DaysInMonth_def split: if_splits)
  from assms(4) have t: "h \<le> 24" "mi \<le> 59" "s \<le> 59"
    by (auto simp: legal_time_def)
  have day: "- 720000 \<le> MakeDay y m dd" "MakeDay y m dd \<le> 2941000"
    using DayFromYear_bounds [OF assms(1,2)] DaysBeforeMonth_bounds [OF m, of y] d
    by (simp_all add: MakeDay_def)
  have tm: "0 \<le> MakeTime h mi s f" "MakeTime h mi s f \<le> 100000000"
    using assms(5-9) t by (simp_all add: MakeTime_def)
  show ?thesis
    using day tm assms(10,11) by (simp add: TimeClip_def MakeDate_def msPerDay_def)
qed

text \<open>Parsing a string of the shape \<^verbatim>\<open>YYYY-MM-DDTHH:MM:SS\<close> followed by \<^verbatim>\<open>-03:00\<close>.\<close>

lemma Date_parse_naive_offset:
  assumes "test_naive d"
  shows "Date_parse z legacy (d @ ''-03:00'') =
           (if legal_date (naive_ymd d) \<and> legal_time (naive_hms d)
            then (case naive_ymd d of (y, m, dd) \<Rightarrow> case naive_hms d of (h, mi, s, f) \<Rightarrow>
                    Some (MakeDate (MakeDay y m dd) (MakeTime h mi s 0) + 3 * 3600000))
            else legacy (d @ ''-03:00''))"
proof -
  from assms obtain y1 y2 y3 y4 m1 m2 d1 d2 h1 h2 i1 i2 s1 s2 where
    d: "d = [y1, y2, y3, y4, CHR ''-'', m1, m2, CHR ''-'', d1, d2, CHR ''T'',
             h1, h2, CHR '':'', i1, i2, CHR '':'', s1, s2]"
    and dg: "is_digit y1" "is_digit y2" "is_digit y3" "is_digit y4" "is_digit m1" "is_digit m2"
      "is_digit d1" "is_digit d2" "is_digit h1" "is_digit h2" "is_digit i1" "is_digit i2"
      "is_digit s1" "is_digit s2"
    unfolding naive_shape by blast
  define y where "y = digits_val 0 [y1, y2, y3, y4]"
  define m where "m = digits_val 0 [m1, m2]"
  define dd where "dd = digits_val 0 [d1, d2]"
  define hh where "hh = digits_val 0 [h1, h2]"
  define mi where "mi = digits_val 0 [i1, i2]"
  define ss where "ss = digits_val 0 [s1, s2]"
  have ymd: "naive_ymd d = (y, m, dd)"
    by (simp add: naive_ymd_def d y_def m_def dd_def)
  have hms: "naive_hms d = (hh, mi, ss, 0)"
    by (simp add: naive_hms_def d hh_def mi_def ss_def)
  define ds where "ds = [y1, y2, y3, y4, CHR ''-'', m1, m2, CHR ''-'', d1, d2]"
  define ts where "ts = [h1, h2, CHR '':'', i1, i2, CHR '':'', s1, s2]"
  have o: "is_offset_start CHR ''-''" "\<not> is_offset_start CHR '':''"
    by (simp_all add: is_offset_start_def)
  have tw: "takeWhile (\<lambda>c. c \<noteq> CHR ''T'') (d @ ''-03:00'') = ds"
    using dg by (simp add: d ds_def)
  have dw: "dropWhile (\<lambda>c. c \<noteq> CHR ''T'') (d @ ''-03:00'') = CHR ''T'' # ts @ ''-03:00''"
    using dg by (simp add: d ts_def)
  have ne: "dropWhile (\<lambda>c. c \<noteq> CHR ''T'') (d @ ''-03:00'') \<noteq> []"
    by (simp add: dw)
  have tt: "takeWhile (\<lambda>c. \<not> is_offset_start c)
              (tl (dropWhile (\<lambda>c. c \<noteq> CHR ''T'') (d @ ''-03:00''))) = ts"
    using dg o by (simp add: dw ts_def)
  have dt: "dropWhile (\<lambda>c. \<not> is_offset_start c)
              (tl (dropWhile (\<lambda>c. c \<noteq> CHR ''T'') (d @ ''-03:00''))) = ''-03:00''"
    using dg o by (simp add: dw ts_def)
  have pd: "parse_date_form ds = Some (y, m, dd)"
    using dg by (simp add: parse_date_form_def y_def m_def dd_def ds_def)
  have pt: "parse_time_form ts = Some (hh, mi, ss, 0)"
    using dg by (simp add: parse_time_form_def hh_def mi_def ss_def ts_def)
  have po: "parse_offset_form ''-03:00'' = Some (Some (- 10800000))"
    by (simp add: parse_offset_form_def is_digit_def digit_val_def MakeTime_def)
  have unf: "Date_parse z legacy (d @ ''-03:00'') =
      (if \<not> legal_date (y, m, dd) then legacy (d @ ''-03:00'')
       else if \<not> legal_time (hh, mi, ss, 0) then legacy (d @ ''-03:00'')
       else TimeClip (MakeDate (MakeDay y m dd) (MakeTime hh mi ss 0) - (- 10800000)))"
    unfolding Date_parse_def Let_def tw tt dt pd pt po using ne by simp
  have y: "0 \<le> y" "y \<le> 9999"
    using digits4_bounds [of y1 y2 y3 y4] by (simp_all add: y_def)
  have nn: "0 \<le> hh" "0 \<le> mi" "0 \<le> ss"
    using digits2_bounds [of h1 h2] digits2_bounds [of i1 i2] digits2_bounds [of s1 s2]
    by (simp_all add: hh_def mi_def ss_def)
  have clip: "TimeClip (MakeDate (MakeDay y m dd) (MakeTime hh mi ss 0) - (- 10800000)) =
      Some (MakeDate (MakeDay y m dd) (MakeTime hh mi ss 0) - (- 10800000))"
    if "legal_date (y, m, dd)" "legal_time (hh, mi, ss, 0)"
    using y that nn by (intro legal_in_range) simp_all
  show ?thesis
    using unf clip by (auto simp: ymd hms)
qed

section \<open>The credential store\<close>

text \<open>
  Claim C7. \<open>loadTokens\<close> installs the refresh token of the environment and returns
  true whenever \<^verbatim>\<open>GOOGLE_REFRESH_TOKEN\<close> is present (set to a non-empty string, which is
  what the source's \<^verbatim>\<open>if\<close> tests), and then the token file is not read: the only call
  is \<^verbatim>\<open>setCredentials\<close>. Otherwise it reads the token file, and when the read and the
  parse succeed it installs the parsed contents and returns true. It never throws: when
  the read throws (a missing file) or the parse throws (a corrupt file) it returns
  false and leaves the client as it was.
\<close>

theorem loadTokens_resolution:
  "(truthy_str (GOOGLE_REFRESH_TOKEN h) \<longrightarrow>
      (\<exists>t. GOOGLE_REFRESH_TOKEN h = Some t \<and> t \<noteq> [] \<and>
           loadTokens h c =
             Inr (True, c\<lparr>credentials := Some (JObj [(''refresh_token'', JStr t)])\<rparr>,
                  [SetCredentials (JObj [(''refresh_token'', JStr t)])]))) \<and>
   (\<not> truthy_str (GOOGLE_REFRESH_TOKEN h) \<longrightarrow>
      (\<forall>content tokens. fs_readFile h = Inr content \<and> JSON_parse h content = Inr tokens \<longrightarrow>
          loadTokens h c =
            Inr (True, c\<lparr>credentials := Some tokens\<rparr>, [ReadFile, SetCredentials tokens])) \<and>
      (\<forall>err. fs_readFile h = Inl err \<longrightarrow> loadTokens h c = Inr (False, c, [ReadFile])) \<and>
      (\<forall>content err. fs_readFile h = Inr content \<and> JSON_parse h content = Inl err \<longrightarrow>
          loadTokens h c = Inr (False, c, [ReadFile]))) \<and>
   (\<exists>r. loadTokens h c = Inr r)"
  by (cases "GOOGLE_REFRESH_TOKEN h")
     (auto simp: loadTokens_def read_tokens_def setCredentials_def Let_def split: sum.splits)

theorem loadTokens_resolution_witness:
  "loadTokens host_env no_client =
     Inr (True, \<lparr>credentials = Some (JObj [(''refresh_token'', JStr ''1//refresh'')])\<rparr>,
          [SetCredentials (JObj [(''refresh_token'', JStr ''1//refresh'')])]) \<and>
   loadTokens host_file no_client =
     Inr (True, \<lparr>credentials = Some (JObj [])\<rparr>, [ReadFile, SetCredentials (JObj [])]) \<and>
   loadTokens host_utc no_client = Inr (False, no_client, [ReadFile]) \<and>
   loadTokens host_corrupt no_client = Inr (False, no_client, [ReadFile])"
  using loadTokens_resolution [of host_env no_client]
        loadTokens_resolution [of host_file no_client]
        loadTokens_resolution [of host_utc no_client]
        loadTokens_resolution [of host_corrupt no_client]
  by (simp add: host_env_def host_file_def host_utc_def host_corrupt_def no_client_def)

section \<open>Validation and authentication\<close>

text \<open>
  Claim C5. A schedule request in which \<^verbatim>\<open>name\<close>, \<^verbatim>\<open>email\<close> or \<^verbatim>\<open>date\<close> is missing
  or empty is answered with status 400 and the validation message; nothing is called
  outside the process (neither the token file nor the client nor the provider) and the
  client is unchanged.
\<close>

theorem schedule_validation:
  assumes "b_name req = None \<or> b_name req = Some [] \<or> b_email req = None \<or> b_email req = Some []
           \<or> b_date req = None \<or> b_date req = Some []"
  shows "schedule h c req =
           (\<lparr>status = 400, body = Failure ''Missing required fields: name, email, date''\<rparr>, c, [])"
  using assms by (auto simp: schedule_def)

theorem schedule_validation_witness:
  "schedule host_env no_client (ana\<lparr>b_email := Some []\<rparr>) =
     (\<lparr>status = 400, body = Failure ''Missing required fields: name, email, date''\<rparr>,
      no_client, [])"
  using schedule_validation [of "ana\<lparr>b_email := Some []\<rparr>" host_env no_client]
  by (simp add: ana_def)

text \<open>
  Claim C2 fails on the code. Both handlers guard the provider calls with
  \<^verbatim>\<open>if (!oauth2Client.credentials)\<close>, but the client never holds a falsy value when
  nothing is installed: it starts with the empty object, and \<open>loadTokens\<close>, which
  returns false on a host without a token, leaves it there. So in a process with no
  installed credentials, no token in the environment and no token file, neither handler
  reloads the tokens or answers 401: the availability handler and the schedule handler
  both call \<^verbatim>\<open>events.list\<close>, and answer 500 with the provider's error (or 200 when
  the provider accepts the call).
\<close>

theorem fresh_process_reaches_gateway:
  "truthy (credentials fresh_client) \<and>
   loadTokens host_no_access fresh_client = Inr (False, fresh_client, [ReadFile]) \<and>
   availability host_no_access fresh_client (Some ''2025-12-25'') =
     (\<lparr>status = 500,
       body = Failure (''Error checking availability: '' @ message no_access)\<rparr>,
      fresh_client,
      [EventsList \<lparr>l_calendarId = ''primary'', l_timeMin = ''2025-12-25T00:00:00.000Z'',
         l_timeMax = ''2025-12-25T23:59:59.999Z'', l_timeZone = ''America/Sao_Paulo'',
         l_singleEvents = True, l_orderBy = Some ''startTime''\<rparr>]) \<and>
   schedule host_no_access fresh_client ana =
     (\<lparr>status = 500,
       body = Failure (''Error contacting Google Calendar: '' @ message no_access)\<rparr>,
      fresh_client,
      [EventsList \<lparr>l_calendarId = ''primary'', l_timeMin = ''2026-01-10T17:00:00.000Z'',
         l_timeMax = ''2026-01-10T18:00:00.000Z'', l_timeZone = ''America/Sao_Paulo'',
         l_singleEvents = True, l_orderBy = None\<rparr>]) \<and>
   availability host_utc fresh_client (Some ''2025-12-25'') =
     (\<lparr>status = 200, body = Slots []\<rparr>, fresh_client,
      [EventsList \<lparr>l_calendarId = ''primary'', l_timeMin = ''2025-12-25T00:00:00.000Z'',
         l_timeMax = ''2025-12-25T23:59:59.999Z'', l_timeZone = ''America/Sao_Paulo'',
         l_singleEvents = True, l_orderBy = Some ''startTime''\<rparr>])"
  by code_simp

theorem fresh_process_reaches_gateway_witness:
  "status (fst (availability host_no_access fresh_client (Some ''2025-12-25''))) = 500 \<and>
   status (fst (schedule host_no_access fresh_client ana)) = 500 \<and>
   length (filter is_gateway_call
             (snd (snd (availability host_no_access fresh_client (Some ''2025-12-25''))))) = 1 \<and>
   length (filter is_gateway_call (snd (snd (schedule host_no_access fresh_client ana)))) = 1"
  using fresh_process_reaches_gateway by simp

section \<open>The double-booking guard\<close>

text \<open>
  Claim C3. When the conflict check of a schedule request (the \<^verbatim>\<open>events.list\<close> call of
  the request) returns at least one event, the request is answered with status 409 and
  \<^verbatim>\<open>events.insert\<close> is not called. The window of that query is the start time of the
  booking and the start time plus 60 minutes.
\<close>

theorem conflict_no_insert:
  assumes "EventsList p \<in> set (snd (snd (schedule h c req)))"
    and "events_list h p = Inr r" and "items r = Some xs" and "xs \<noteq> []"
  shows "fst (schedule h c req) = conflict_response \<and>
         status (fst (schedule h c req)) = 409 \<and>
         filter is_insert_call (snd (snd (schedule h c req))) = [] \<and>
         (\<exists>d t. b_date req = Some d \<and>
            Date_parse (LocalTZA h) (legacy_parse h) (normalize_date d) = Some t \<and>
            toISOString (Some t) = Some (l_timeMin p) \<and>
            toISOString (Some (t + 60 * 60 * 1000)) = Some (l_timeMax p))"
proof (cases "truthy_str (b_name req) \<and> truthy_str (b_email req) \<and> truthy_str (b_date req)")
  case False
  then have "schedule h c req =
      (\<lparr>status = 400, body = Failure ''Missing required fields: name, email, date''\<rparr>, c, [])"
    by (rule not_valid_schedule)
  with assms(1) show ?thesis by simp
next
  case True
  then have v: "truthy_str (b_name req)" "truthy_str (b_email req)" "truthy_str (b_date req)"
    by simp_all
  from v show ?thesis
  proof (cases rule: schedule_valid_cases [where h = h and c = c])
    case (unauth c' tr)
    with assms(1) show ?thesis by auto
  next
    case (proceed c1 tr1 nm em d)
    note pr = proceed
    have ng: "EventsList p \<notin> set tr1"
      using pr(4) by auto
    have ni: "filter is_insert_call tr1 = []"
      using pr(4) by (auto simp: filter_empty_conv dest: insert_is_gateway)
    show ?thesis
    proof (cases rule: schedule_booking_cases [of h c1 tr1 nm em "normalize_date d"])
      case invalid
      with pr(5) assms(1) ng show ?thesis by simp
    next
      case (list_fails t lo hi p' err)
      with pr(5) assms(1,2) ng show ?thesis by auto
    next
      case (conflict t lo hi p' r' x xs')
      with pr(5) assms(1) ng have pp: "p = p'" by auto
      have "toISOString (Some (t + 3600000)) = Some hi"
        using conflict(3) by (auto simp: TimeClip_def toISOString_def split: if_splits)
      with conflict pr pp ni show ?thesis
        by (simp add: conflict_response_def)
    next
      case (insert_fails t lo hi p' r' q err)
      with pr(5) assms(1) ng have "p = p'" by auto
      with insert_fails assms(2,3,4) show ?thesis by auto
    next
      case (booked t lo hi p' r' q r'')
      with pr(5) assms(1) ng have "p = p'" by auto
      with booked assms(2,3,4) show ?thesis by auto
    qed
  qed
qed

theorem conflict_no_insert_witness:
  "fst (schedule host_busy no_client ana) = conflict_response \<and>
   status (fst (schedule host_busy no_client ana)) = 409 \<and>
   filter is_insert_call (snd (snd (schedule host_busy no_client ana))) = []"
proof -
  define p where "p = \<lparr>l_calendarId = ''primary'', l_timeMin = ''2026-01-10T17:00:00.000Z'',
    l_timeMax = ''2026-01-10T18:00:00.000Z'', l_timeZone = ''America/Sao_Paulo'',
    l_singleEvents = True, l_orderBy = None\<rparr>"
  have "snd (snd (schedule host_busy no_client ana)) =
      [SetCredentials (JObj [(''refresh_token'', JStr ''1//refresh'')]),
       EventsList \<lparr>l_calendarId = ''primary'', l_timeMin = ''2026-01-10T17:00:00.000Z'',
         l_timeMax = ''2026-01-10T18:00:00.000Z'', l_timeZone = ''America/Sao_Paulo'',
         l_singleEvents = True, l_orderBy = None\<rparr>]"
    by code_simp
  then have 1: "EventsList p \<in> set (snd (snd (schedule host_busy no_client ana)))"
    by (simp add: p_def)
  have 2: "events_list host_busy p = Inr \<lparr>items = Some [some_event]\<rparr>"
    by (simp add: host_busy_def)
  have 3: "items \<lparr>items = Some [some_event]\<rparr> = Some [some_event]"
    by simp
  have 4: "[some_event] \<noteq> []"
    by simp
  show ?thesis
    using conflict_no_insert [OF 1 2 3 4] by blast
qed

section \<open>Busy slots\<close>

text \<open>
  Claim C9. When the \<^verbatim>\<open>events.list\<close> call of an availability request returns, the
  response is the list of busy slots of the returned events, one slot for each event and
  in the same order. The \<^verbatim>\<open>summary\<close> of every slot is the fixed string \<^verbatim>\<open>Ocupado\<close>;
  its \<^verbatim>\<open>start\<close> and \<^verbatim>\<open>end\<close> are those of the event: the \<^verbatim>\<open>dateTime\<close> when the event
  has a non-empty one, and otherwise the \<^verbatim>\<open>date\<close>, which an all-day event has. The titles of the events have no influence on the response: replacing
  them by any others gives the same slots.
\<close>

theorem availability_placeholder:
  assumes "EventsList p \<in> set (snd (snd (availability h c date)))"
    and "events_list h p = Inr r"
    and "evs = (case items r of None \<Rightarrow> [] | Some xs \<Rightarrow> xs)"
  shows "\<exists>slots. fst (availability h c date) = \<lparr>status = 200, body = Slots slots\<rparr> \<and>
           length slots = length evs \<and>
           (\<forall>i < length evs.
              slot_summary (slots ! i) = ''Ocupado'' \<and>
              slot_start (slots ! i) =
                (case et_dateTime (ev_start (evs ! i)) of
                   None \<Rightarrow> et_date (ev_start (evs ! i))
                 | Some s \<Rightarrow> if s = [] then et_date (ev_start (evs ! i)) else Some s) \<and>
              slot_end (slots ! i) =
                (case et_dateTime (ev_end (evs ! i)) of
                   None \<Rightarrow> et_date (ev_end (evs ! i))
                 | Some s \<Rightarrow> if s = [] then et_date (ev_end (evs ! i)) else Some s)) \<and>
           (\<forall>f. map to_busy_slot (map (\<lambda>e. e\<lparr>ev_summary := f e\<rparr>) evs) = slots)"
proof -
  have "fst (availability h c date) = \<lparr>status = 200, body = Slots (map to_busy_slot evs)\<rparr>"
    using availability_listed [OF assms(1)] assms(2,3) by simp
  then show ?thesis
    by (intro exI [of _ "map to_busy_slot evs"])
       (simp add: to_busy_slot_def js_or_def split: option.splits)
qed

theorem availability_placeholder_witness:
  "fst (availability host_two_events no_client (Some ''2026-01-10'')) =
     \<lparr>status = 200,
      body = Slots [\<lparr>slot_start = Some ''2026-01-10T14:30:00-03:00'',
                     slot_end = Some ''2026-01-10T15:30:00-03:00'',
                     slot_summary = ''Ocupado''\<rparr>,
                    \<lparr>slot_start = Some ''2026-01-10'',
                     slot_end = Some ''2026-01-11'',
                     slot_summary = ''Ocupado''\<rparr>]\<rparr>"
proof -
  define p where "p = \<lparr>l_calendarId = ''primary'', l_timeMin = ''2026-01-10T00:00:00.000Z'',
    l_timeMax = ''2026-01-10T23:59:59.999Z'', l_timeZone = ''America/Sao_Paulo'',
    l_singleEvents = True, l_orderBy = Some ''startTime''\<rparr>"
  define evs where "evs = [some_event, all_day_event]"
  have "map (\<lambda>e. case e of EventsList q \<Rightarrow> [q] | _ \<Rightarrow> [])
          (snd (snd (availability host_two_events no_client (Some ''2026-01-10'')))) =
      [[], [\<lparr>l_calendarId = ''primary'', l_timeMin = ''2026-01-10T00:00:00.000Z'',
         l_timeMax = ''2026-01-10T23:59:59.999Z'', l_timeZone = ''America/Sao_Paulo'',
         l_singleEvents = True, l_orderBy = Some ''startTime''\<rparr>]]"
    by code_simp
  then have 1: "EventsList p \<in> set (snd (snd (availability host_two_events no_client (Some ''2026-01-10''))))"
    by (auto simp: p_def split: effect.splits)
  have 2: "events_list host_two_events p = Inr \<lparr>items = Some evs\<rparr>"
    by (simp add: host_two_events_def evs_def)
  have 3: "evs = (case items \<lparr>items = Some evs\<rparr> of None \<Rightarrow> [] | Some xs \<Rightarrow> xs)"
    by simp
  obtain slots where
    r: "fst (availability host_two_events no_client (Some ''2026-01-10'')) =
          \<lparr>status = 200, body = Slots slots\<rparr>"
    and l: "length slots = length evs"
    and f: "\<forall>i < length evs.
              slot_summary (slots ! i) = ''Ocupado'' \<and>
              slot_start (slots ! i) =
                (case et_dateTime (ev_start (evs ! i)) of
                   None \<Rightarrow> et_date (ev_start (evs ! i))
                 | Some s \<Rightarrow> if s = [] then et_date (ev_start (evs ! i)) else Some s) \<and>
              slot_end (slots ! i) =
                (case et_dateTime (ev_end (evs ! i)) of
                   None \<Rightarrow> et_date (ev_end (evs ! i))
                 | Some s \<Rightarrow> if s = [] then et_date (ev_end (evs ! i)) else Some s)"
    using availability_placeholder [OF 1 2 3] by blast
  from l obtain a b where ab: "slots = [a, b]"
    by (cases slots; cases "tl slots"; cases "tl (tl slots)") (auto simp: evs_def)
  from f have "slot_summary a = ''Ocupado'' \<and>
      slot_start a = Some ''2026-01-10T14:30:00-03:00'' \<and>
      slot_end a = Some ''2026-01-10T15:30:00-03:00''"
    by (auto simp: ab evs_def some_event_def dest: spec [of _ 0])
  then have a: "a = \<lparr>slot_start = Some ''2026-01-10T14:30:00-03:00'',
      slot_end = Some ''2026-01-10T15:30:00-03:00'', slot_summary = ''Ocupado''\<rparr>"
    by (cases a) simp
  from f have "slot_summary b = ''Ocupado'' \<and> slot_start b = Some ''2026-01-10'' \<and>
      slot_end b = Some ''2026-01-11''"
    by (auto simp: ab evs_def all_day_event_def dest: spec [of _ 1])
  then have b: "b = \<lparr>slot_start = Some ''2026-01-10'', slot_end = Some ''2026-01-11'',
      slot_summary = ''Ocupado''\<rparr>"
    by (cases b) simp
  show ?thesis
    using r ab a b by simp
qed

section \<open>Gateway failures of the schedule handler\<close>

text \<open>
  Claim C8. When a provider call of a schedule request throws (\<^verbatim>\<open>events.list\<close> or
  \<^verbatim>\<open>events.insert\<close>, with the error \<open>e\<close>), the request is still answered: with status
  401 and the message that the authentication expired if the \<^verbatim>\<open>code\<close> of the error is
  the number 401 or its message contains \<^verbatim>\<open>invalid_grant\<close>, and otherwise with status 500
  and the message of the error after a fixed prefix. The status is 401 exactly in the
  first case.
\<close>

theorem schedule_gateway_failure:
  assumes "(\<exists>p. EventsList p \<in> set (snd (snd (schedule h c req))) \<and> events_list h p = Inl e) \<or>
           (\<exists>q. EventsInsert q \<in> set (snd (snd (schedule h c req))) \<and> events_insert h q = Inl e)"
  shows "fst (schedule h c req) =
           (if code e = CodeNum 401 \<or> includes_str (message e) ''invalid_grant''
            then \<lparr>status = 401,
                  body = Failure ''Authentication expired. Admin needs to visit /auth again.''\<rparr>
            else \<lparr>status = 500,
                  body = Failure (''Error contacting Google Calendar: '' @ message e)\<rparr>) \<and>
         (status (fst (schedule h c req)) = 401 \<longleftrightarrow>
            code e = CodeNum 401 \<or> includes_str (message e) ''invalid_grant'')"
proof -
  have main: "fst (schedule h c req) = schedule_catch e"
  proof (cases "truthy_str (b_name req) \<and> truthy_str (b_email req) \<and> truthy_str (b_date req)")
    case False
    then have "schedule h c req =
        (\<lparr>status = 400, body = Failure ''Missing required fields: name, email, date''\<rparr>, c, [])"
      by (rule not_valid_schedule)
    with assms show ?thesis by simp
  next
    case True
    then have v: "truthy_str (b_name req)" "truthy_str (b_email req)" "truthy_str (b_date req)"
      by simp_all
    from v show ?thesis
    proof (cases rule: schedule_valid_cases [where h = h and c = c])
      case (unauth c' tr)
      with assms show ?thesis by auto
    next
      case (proceed c1 tr1 nm em d)
      note pr = proceed
      have ng: "EventsList p \<notin> set tr1" "EventsInsert q \<notin> set tr1" for p q
        using pr(4) by auto
      show ?thesis
      proof (cases rule: schedule_booking_cases [of h c1 tr1 nm em "normalize_date d"])
        case invalid
        with pr(5) assms ng show ?thesis by simp
      next
        case (list_fails t lo hi p' err)
        with pr(5) assms ng show ?thesis by auto
      next
        case (conflict t lo hi p' r' x xs')
        with pr(5) assms ng show ?thesis by auto
      next
        case (insert_fails t lo hi p' r' q err)
        with pr(5) assms ng show ?thesis by auto
      next
        case (booked t lo hi p' r' q r'')
        with pr(5) assms ng show ?thesis by auto
      qed
    qed
  qed
  then show ?thesis
    by (simp add: schedule_catch_def)
qed

theorem schedule_gateway_failure_witness:
  "fst (schedule host_expired no_client ana) =
     \<lparr>status = 401, body = Failure ''Authentication expired. Admin needs to visit /auth again.''\<rparr> \<and>
   fst (schedule host_quota no_client ana) =
     \<lparr>status = 500, body = Failure ''Error contacting Google Calendar: Rate Limit Exceeded''\<rparr>"
proof -
  define p where "p = \<lparr>l_calendarId = ''primary'', l_timeMin = ''2026-01-10T17:00:00.000Z'',
    l_timeMax = ''2026-01-10T18:00:00.000Z'', l_timeZone = ''America/Sao_Paulo'',
    l_singleEvents = True, l_orderBy = None\<rparr>"
  define q where "q = \<lparr>i_calendarId = ''primary'',
    resource = compose_event host_quota ''Ana'' ''ana@x.com'' ''2026-01-10T17:00:00.000Z''
                 ''2026-01-10T18:00:00.000Z'',
    conferenceDataVersion = 1, sendUpdates = ''all''\<rparr>"
  have "snd (snd (schedule host_expired no_client ana)) =
      [SetCredentials (JObj [(''refresh_token'', JStr ''1//refresh'')]),
       EventsList \<lparr>l_calendarId = ''primary'', l_timeMin = ''2026-01-10T17:00:00.000Z'',
         l_timeMax = ''2026-01-10T18:00:00.000Z'', l_timeZone = ''America/Sao_Paulo'',
         l_singleEvents = True, l_orderBy = None\<rparr>]"
    by code_simp
  then have 1: "EventsList p \<in> set (snd (snd (schedule host_expired no_client ana)))"
    by (simp add: p_def)
  have 2: "events_list host_expired p = Inl \<lparr>code = CodeNum 400, message = ''invalid_grant''\<rparr>"
    by (simp add: host_expired_def)
  have "snd (snd (schedule host_quota no_client ana)) =
      [SetCredentials (JObj [(''refresh_token'', JStr ''1//refresh'')]),
       EventsList \<lparr>l_calendarId = ''primary'', l_timeMin = ''2026-01-10T17:00:00.000Z'',
         l_timeMax = ''2026-01-10T18:00:00.000Z'', l_timeZone = ''America/Sao_Paulo'',
         l_singleEvents = True, l_orderBy = None\<rparr>,
       EventsInsert \<lparr>i_calendarId = ''primary'',
         resource = compose_event host_quota ''Ana'' ''ana@x.com'' ''2026-01-10T17:00:00.000Z''
                      ''2026-01-10T18:00:00.000Z'',
         conferenceDataVersion = 1, sendUpdates = ''all''\<rparr>]"
    by code_simp
  then have 3: "EventsInsert q \<in> set (snd (snd (schedule host_quota no_client ana)))"
    by (simp add: q_def)
  have 4: "events_insert host_quota q = Inl \<lparr>code = CodeNum 403, message = ''Rate Limit Exceeded''\<rparr>"
    by (simp add: host_quota_def)
  have a: "(\<exists>p. EventsList p \<in> set (snd (snd (schedule host_expired no_client ana))) \<and>
                events_list host_expired p = Inl \<lparr>code = CodeNum 400, message = ''invalid_grant''\<rparr>) \<or>
           (\<exists>q. EventsInsert q \<in> set (snd (snd (schedule host_expired no_client ana))) \<and>
                events_insert host_expired q = Inl \<lparr>code = CodeNum 400, message = ''invalid_grant''\<rparr>)"
    using 1 2 by blast
  have b: "(\<exists>p. EventsList p \<in> set (snd (snd (schedule host_quota no_client ana))) \<and>
                events_list host_quota p = Inl \<lparr>code = CodeNum 403, message = ''Rate Limit Exceeded''\<rparr>) \<or>
           (\<exists>q. EventsInsert q \<in> set (snd (snd (schedule host_quota no_client ana))) \<and>
                events_insert host_quota q = Inl \<lparr>code = CodeNum 403, message = ''Rate Limit Exceeded''\<rparr>)"
    using 3 4 by blast
  show ?thesis
    using schedule_gateway_failure [OF a] schedule_gateway_failure [OF b] by simp
qed

section \<open>The event of a successful booking\<close>

text \<open>
  Claim C6. A schedule request that succeeds (status 200) made exactly one
  \<^verbatim>\<open>events.insert\<close> call, which returned. The event it sent starts at the start time of
  the booking and ends exactly 60 minutes later; its reminders are not the defaults but
  exactly two overrides, an email 1440 minutes before and a popup 10 minutes before; its
  only attendee is the email of the request; it asks for a conference of the type
  \<^verbatim>\<open>hangoutsMeet\<close> with a request identifier made of the clock; and the call carries
  \<^verbatim>\<open>conferenceDataVersion: 1\<close> and \<^verbatim>\<open>sendUpdates: 'all'\<close>.
\<close>

theorem schedule_success_event:
  assumes "status (fst (schedule h c req)) = 200"
  shows "\<exists>nm em d t q lnk.
           b_name req = Some nm \<and> b_email req = Some em \<and> b_date req = Some d \<and>
           Date_parse (LocalTZA h) (legacy_parse h) (normalize_date d) = Some t \<and>
           filter is_insert_call (snd (snd (schedule h c req))) = [EventsInsert q] \<and>
           events_insert h q = Inr lnk \<and>
           body (fst (schedule h c req)) = Scheduled ''Evento agendado com sucesso!'' (htmlLink lnk) \<and>
           toISOString (Some t) = Some (dateTime (start (resource q))) \<and>
           toISOString (Some (t + 60 * 60 * 1000)) = Some (dateTime (end' (resource q))) \<and>
           reminders (resource q) =
             \<lparr>useDefault = False,
              overrides = [\<lparr>rem_method = ''email'', minutes = 1440\<rparr>,
                           \<lparr>rem_method = ''popup'', minutes = 10\<rparr>]\<rparr> \<and>
           attendees (resource q) = [em] \<and>
           conferenceData (resource q) =
             \<lparr>requestId = ''meet-'' @ dec (Date_now h), conferenceSolutionKey = ''hangoutsMeet''\<rparr> \<and>
           conferenceDataVersion q = 1 \<and> sendUpdates q = ''all''"
proof (cases "truthy_str (b_name req) \<and> truthy_str (b_email req) \<and> truthy_str (b_date req)")
  case False
  then have "schedule h c req =
      (\<lparr>status = 400, body = Failure ''Missing required fields: name, email, date''\<rparr>, c, [])"
    by (rule not_valid_schedule)
  with assms show ?thesis by simp
next
  case True
  then have v: "truthy_str (b_name req)" "truthy_str (b_email req)" "truthy_str (b_date req)"
    by simp_all
  from v show ?thesis
  proof (cases rule: schedule_valid_cases [where h = h and c = c])
    case (unauth c' tr)
    with assms show ?thesis by (simp add: not_authenticated_def)
  next
    case (proceed c1 tr1 nm em d)
    note pr = proceed
    have ni: "filter is_insert_call tr1 = []"
      using pr(4) by (auto simp: filter_empty_conv dest: insert_is_gateway)
    show ?thesis
    proof (cases rule: schedule_booking_cases [of h c1 tr1 nm em "normalize_date d"])
      case invalid
      with pr(5) assms show ?thesis
        by (simp add: schedule_catch_def split: if_splits)
    next
      case (list_fails t lo hi p' err)
      with pr(5) assms show ?thesis
        by (simp add: schedule_catch_def split: if_splits)
    next
      case (conflict t lo hi p' r' x xs')
      with pr(5) assms show ?thesis
        by (simp add: conflict_response_def)
    next
      case (insert_fails t lo hi p' r' q err)
      with pr(5) assms show ?thesis
        by (simp add: schedule_catch_def split: if_splits)
    next
      case (booked t lo hi p' r' q r'')
      have hi: "toISOString (Some (t + 3600000)) = Some hi"
        using booked(3) by (auto simp: TimeClip_def toISOString_def split: if_splits)
      have tr: "filter is_insert_call (snd (snd (schedule h c req))) = [EventsInsert q]"
        using pr(5) booked(9) ni by simp
      have res: "body (fst (schedule h c req)) =
          Scheduled ''Evento agendado com sucesso!'' (htmlLink r'')"
        using pr(5) booked(9) by simp
      show ?thesis
        using pr(1,2,3) booked(1,2,7,8) hi tr res
        by (intro exI [of _ nm] exI [of _ em] exI [of _ d] exI [of _ t] exI [of _ q]
              exI [of _ r'']) (simp add: compose_event_def)
    qed
  qed
qed

theorem schedule_success_event_witness:
  "status (fst (schedule host_env no_client ana)) = 200 \<and>
   (\<exists>q. filter is_insert_call (snd (snd (schedule host_env no_client ana))) = [EventsInsert q] \<and>
        dateTime (start (resource q)) = ''2026-01-10T17:00:00.000Z'' \<and>
        dateTime (end' (resource q)) = ''2026-01-10T18:00:00.000Z'' \<and>
        attendees (resource q) = [''ana@x.com''] \<and>
        overrides (reminders (resource q)) =
          [\<lparr>rem_method = ''email'', minutes = 1440\<rparr>, \<lparr>rem_method = ''popup'', minutes = 10\<rparr>] \<and>
        sendUpdates q = ''all'')"
proof -
  have 1: "status (fst (schedule host_env no_client ana)) = 200"
    by code_simp
  have 2: "Date_parse (LocalTZA host_env) (legacy_parse host_env)
             (normalize_date ''2026-01-10T14:00:00'') = Some 1768064400000"
    by code_simp
  have 3: "toISOString (Some 1768064400000) = Some ''2026-01-10T17:00:00.000Z''"
    by code_simp
  have 4: "toISOString (Some (1768064400000 + 60 * 60 * 1000)) = Some ''2026-01-10T18:00:00.000Z''"
    by code_simp
  from schedule_success_event [OF 1] obtain nm em d t q where
    f: "b_email ana = Some em" "b_date ana = Some d"
      "Date_parse (LocalTZA host_env) (legacy_parse host_env) (normalize_date d) = Some t"
      "filter is_insert_call (snd (snd (schedule host_env no_client ana))) = [EventsInsert q]"
      "toISOString (Some t) = Some (dateTime (start (resource q)))"
      "toISOString (Some (t + 60 * 60 * 1000)) = Some (dateTime (end' (resource q)))"
      "reminders (resource q) =
         \<lparr>useDefault = False,
          overrides = [\<lparr>rem_method = ''email'', minutes = 1440\<rparr>,
                       \<lparr>rem_method = ''popup'', minutes = 10\<rparr>]\<rparr>"
      "attendees (resource q) = [em]" "sendUpdates q = ''all''"
    by blast
  from f(1,2) have e: "em = ''ana@x.com''" "d = ''2026-01-10T14:00:00''"
    by (simp_all add: ana_def)
  with f(3) 2 have t: "t = 1768064400000"
    by simp
  from f(5) 3 t have s: "dateTime (start (resource q)) = ''2026-01-10T17:00:00.000Z''"
    by simp
  from f(6) 4 t have n: "dateTime (end' (resource q)) = ''2026-01-10T18:00:00.000Z''"
    by simp
  show ?thesis
    using 1 f(4,7,8,9) e s n by auto
qed

section \<open>Normalising the time of a booking\<close>

text \<open>
  Claim C10. The normalisation of the schedule handler is gated on the exact shape
  \<^verbatim>\<open>YYYY-MM-DDTHH:MM:SS\<close>: a date string that the regular expression does not match is
  left as it is, and so is every string whose length is not 19 (a string that already
  carries an offset, one with fractional seconds, a date-only string). A string with the
  offset appended no longer matches, so normalising twice is normalising once. For a
  request that passes validation with such a string, the \<^verbatim>\<open>try\<close> block runs on the
  string of the request itself.
\<close>

theorem normalize_date_gate:
  "(\<not> test_naive d \<longrightarrow> normalize_date d = d) \<and>
   (length d \<noteq> 19 \<longrightarrow> normalize_date d = d) \<and>
   (test_naive d \<longrightarrow> \<not> test_naive (d @ ''-03:00'')) \<and>
   normalize_date (normalize_date d) = normalize_date d \<and>
   (\<not> test_naive d \<and> nm \<noteq> [] \<and> em \<noteq> [] \<and> d \<noteq> [] \<longrightarrow>
      schedule h c \<lparr>b_name = Some nm, b_email = Some em, b_date = Some d\<rparr> =
        (case schedule_try h c nm em d of
           (Inr res, c', tr) \<Rightarrow> (res, c', tr)
         | (Inl error, c', tr) \<Rightarrow> (schedule_catch error, c', tr)))"
proof -
  have a: "test_naive d \<Longrightarrow> \<not> test_naive (d @ ''-03:00'')"
    using test_naive_length [of d] test_naive_length [of "d @ ''-03:00''"] by auto
  have b: "length d \<noteq> 19 \<Longrightarrow> \<not> test_naive d"
    using test_naive_length by blast
  show ?thesis
    using a b by (auto simp: normalize_date_def schedule_def)
qed

theorem normalize_date_gate_witness:
  "normalize_date ''2026-01-10T14:00:00-03:00'' = ''2026-01-10T14:00:00-03:00'' \<and>
   normalize_date ''2026-01-10T14:00:00.000'' = ''2026-01-10T14:00:00.000'' \<and>
   normalize_date ''2026-01-10'' = ''2026-01-10'' \<and>
   normalize_date ''2026-01-10T14:00:00Z'' = ''2026-01-10T14:00:00Z''"
proof -
  have 1: "\<not> test_naive ''2026-01-10T14:00:00-03:00''"
    by code_simp
  have 2: "\<not> test_naive ''2026-01-10T14:00:00.000''"
    by code_simp
  have 3: "length ''2026-01-10'' \<noteq> 19"
    by simp
  have 4: "\<not> test_naive ''2026-01-10T14:00:00Z''"
    by code_simp
  show ?thesis
    by (intro conjI
          normalize_date_gate [THEN conjunct1, THEN mp, OF 1]
          normalize_date_gate [THEN conjunct1, THEN mp, OF 2]
          normalize_date_gate [THEN conjunct2, THEN conjunct1, THEN mp, OF 3]
          normalize_date_gate [THEN conjunct1, THEN mp, OF 4])
qed

text \<open>
  Claim C4 fails on the code. The comment of the handler says that a naive date string
  is forced to \<^verbatim>\<open>-03:00\<close> so that the server does not read it as local or UTC time and
  shift it, but the regular expression accepts a naive string only when it has seconds
  and no fraction. \<^verbatim>\<open>2026-01-10T14:00\<close>, the value of an HTML \<^verbatim>\<open>datetime-local\<close>
  input, is a bare local date-time without a time zone designator; nothing is appended
  to it, \<^verbatim>\<open>new Date\<close> reads it as the server's local time, and the booking is made at
  14:00 UTC on a UTC server (and at 17:00 UTC only on a server in America/Sao\_Paulo),
  where the claim has 17:00 UTC on every server.
\<close>

theorem naive_date_without_seconds_shifted:
  "normalize_date ''2026-01-10T14:00'' = ''2026-01-10T14:00'' \<and>
   normalize_date ''2026-01-10T14:00'' \<noteq> ''2026-01-10T14:00'' @ ''-03:00'' \<and>
   toISOString (Date_parse (LocalTZA host_utc) (legacy_parse host_utc)
                  (normalize_date ''2026-01-10T14:00'')) = Some ''2026-01-10T14:00:00.000Z'' \<and>
   toISOString (Date_parse (LocalTZA host_sao_paulo) (legacy_parse host_sao_paulo)
                  (normalize_date ''2026-01-10T14:00'')) = Some ''2026-01-10T17:00:00.000Z'' \<and>
   snd (snd (schedule host_env no_client (ana\<lparr>b_date := Some ''2026-01-10T14:00''\<rparr>))) =
     [SetCredentials (JObj [(''refresh_token'', JStr ''1//refresh'')]),
      EventsList \<lparr>l_calendarId = ''primary'', l_timeMin = ''2026-01-10T14:00:00.000Z'',
        l_timeMax = ''2026-01-10T15:00:00.000Z'', l_timeZone = ''America/Sao_Paulo'',
        l_singleEvents = True, l_orderBy = None\<rparr>,
      EventsInsert \<lparr>i_calendarId = ''primary'',
        resource = compose_event host_env ''Ana'' ''ana@x.com'' ''2026-01-10T14:00:00.000Z''
                     ''2026-01-10T15:00:00.000Z'',
        conferenceDataVersion = 1, sendUpdates = ''all''\<rparr>]"
  by code_simp

theorem naive_date_without_seconds_shifted_witness:
  "normalize_date ''2026-01-10T14:00'' \<noteq> ''2026-01-10T14:00-03:00'' \<and>
   toISOString (Date_parse (LocalTZA host_utc) (legacy_parse host_utc)
                  (normalize_date ''2026-01-10T14:00'')) \<noteq> Some ''2026-01-10T17:00:00.000Z''"
proof -
  have a: "normalize_date ''2026-01-10T14:00'' \<noteq> ''2026-01-10T14:00-03:00''"
    using naive_date_without_seconds_shifted [THEN conjunct2, THEN conjunct1] by simp
  have b: "toISOString (Date_parse (LocalTZA host_utc) (legacy_parse host_utc)
                  (normalize_date ''2026-01-10T14:00'')) = Some ''2026-01-10T14:00:00.000Z''"
    by (rule naive_date_without_seconds_shifted [THEN conjunct2, THEN conjunct2, THEN conjunct1])
  show ?thesis
    unfolding b using a by simp
qed

text \<open>
  Property X3. For every date string of exactly the shape \<^verbatim>\<open>YYYY-MM-DDTHH:MM:SS\<close>, the
  string used downstream is the date with \<^verbatim>\<open>-03:00\<close> appended; and when its fields are
  a legal date and time, the start of the booking is the time value of these fields read
  at the offset \<^verbatim>\<open>-03:00\<close> (three hours after the same fields read as UTC), whatever the
  time zone of the server and whatever the fallback of the date parser.
\<close>

theorem naive_date_forced_offset:
  assumes "test_naive d"
  shows "normalize_date d = d @ ''-03:00'' \<and>
         (legal_date (naive_ymd d) \<and> legal_time (naive_hms d) \<longrightarrow>
            (case naive_ymd d of (y, m, dd) \<Rightarrow> case naive_hms d of (hh, mi, ss, f) \<Rightarrow>
               Date_parse z legacy (normalize_date d) =
                 Some (MakeDate (MakeDay y m dd) (MakeTime hh mi ss 0) + 3 * 3600000)))"
proof -
  have n: "normalize_date d = d @ ''-03:00''"
    using assms by (simp add: normalize_date_def)
  show ?thesis
    unfolding n using Date_parse_naive_offset [OF assms, of z legacy]
    by (auto split: prod.splits)
qed

theorem naive_date_forced_offset_witness:
  "normalize_date ''2026-01-10T14:00:00'' = ''2026-01-10T14:00:00-03:00'' \<and>
   Date_parse (LocalTZA host_utc) (legacy_parse host_utc) (normalize_date ''2026-01-10T14:00:00'') =
     Some 1768064400000 \<and>
   Date_parse (LocalTZA host_sao_paulo) (legacy_parse host_sao_paulo)
     (normalize_date ''2026-01-10T14:00:00'') = Some 1768064400000 \<and>
   toISOString (Some 1768064400000) = Some ''2026-01-10T17:00:00.000Z''"
proof -
  have 1: "test_naive ''2026-01-10T14:00:00''"
    by code_simp
  have 2: "legal_date (naive_ymd ''2026-01-10T14:00:00'')" "legal_time (naive_hms ''2026-01-10T14:00:00'')"
    by code_simp+
  have 3: "naive_ymd ''2026-01-10T14:00:00'' = (2026, 1, 10)"
    "naive_hms ''2026-01-10T14:00:00'' = (14, 0, 0, 0)"
    by code_simp+
  have 4: "MakeDate (MakeDay 2026 1 10) (MakeTime 14 0 0 0) + 3 * 3600000 = 1768064400000"
    by code_simp
  have 5: "toISOString (Some 1768064400000) = Some ''2026-01-10T17:00:00.000Z''"
    by code_simp
  have l: "legal_date (naive_ymd ''2026-01-10T14:00:00'') \<and>
           legal_time (naive_hms ''2026-01-10T14:00:00'')"
    using 2 by (intro conjI)
  have n: "normalize_date ''2026-01-10T14:00:00'' = ''2026-01-10T14:00:00-03:00''"
    using naive_date_forced_offset [OF 1, THEN conjunct1] by simp
  have "case naive_ymd ''2026-01-10T14:00:00'' of (y, m, dd) \<Rightarrow>
          case naive_hms ''2026-01-10T14:00:00'' of (hh, mi, ss, f) \<Rightarrow>
            Date_parse (LocalTZA host_utc) (legacy_parse host_utc)
              (normalize_date ''2026-01-10T14:00:00'') =
            Some (MakeDate (MakeDay y m dd) (MakeTime hh mi ss 0) + 3 * 3600000)"
    by (rule naive_date_forced_offset [OF 1, THEN conjunct2, THEN mp, OF l])
  then have u: "Date_parse (LocalTZA host_utc) (legacy_parse host_utc)
             (normalize_date ''2026-01-10T14:00:00'') = Some 1768064400000"
    unfolding 3 using 4 by simp
  have "case naive_ymd ''2026-01-10T14:00:00'' of (y, m, dd) \<Rightarrow>
          case naive_hms ''2026-01-10T14:00:00'' of (hh, mi, ss, f) \<Rightarrow>
            Date_parse (LocalTZA host_sao_paulo) (legacy_parse host_sao_paulo)
              (normalize_date ''2026-01-10T14:00:00'') =
            Some (MakeDate (MakeDay y m dd) (MakeTime hh mi ss 0) + 3 * 3600000)"
    by (rule naive_date_forced_offset [OF 1, THEN conjunct2, THEN mp, OF l])
  then have b: "Date_parse (LocalTZA host_sao_paulo) (legacy_parse host_sao_paulo)
             (normalize_date ''2026-01-10T14:00:00'') = Some 1768064400000"
    unfolding 3 using 4 by simp
  show ?thesis
    by (intro conjI n u b 5)
qed

section \<open>The day window of the availability handler\<close>

text \<open>
  Claim C1 fails on the code. The handler builds the window with \<^verbatim>\<open>setHours\<close>, which
  works in the local time of the server, on a date that \<^verbatim>\<open>new Date\<close> read as UTC
  midnight when the string is date-only. For the date \<^verbatim>\<open>2025-12-25\<close> the day in
  America/Sao\_Paulo runs from 2025-12-25T03:00:00.000Z to 2025-12-26T02:59:59.999Z. A
  server on UTC queries 2025-12-25T00:00:00.000Z to 2025-12-25T23:59:59.999Z, and a
  server on America/Sao\_Paulo queries the day before, 2025-12-24T03:00:00.000Z to
  2025-12-25T02:59:59.999Z.
\<close>

theorem availability_window_server_local:
  "snd (snd (availability host_env no_client (Some ''2025-12-25''))) =
     [SetCredentials (JObj [(''refresh_token'', JStr ''1//refresh'')]),
      EventsList \<lparr>l_calendarId = ''primary'', l_timeMin = ''2025-12-25T00:00:00.000Z'',
        l_timeMax = ''2025-12-25T23:59:59.999Z'', l_timeZone = ''America/Sao_Paulo'',
        l_singleEvents = True, l_orderBy = Some ''startTime''\<rparr>] \<and>
   snd (snd (availability (host_env\<lparr>LocalTZA := (\<lambda>t u. - 10800000)\<rparr>) no_client
               (Some ''2025-12-25''))) =
     [SetCredentials (JObj [(''refresh_token'', JStr ''1//refresh'')]),
      EventsList \<lparr>l_calendarId = ''primary'', l_timeMin = ''2025-12-24T03:00:00.000Z'',
        l_timeMax = ''2025-12-25T02:59:59.999Z'', l_timeZone = ''America/Sao_Paulo'',
        l_singleEvents = True, l_orderBy = Some ''startTime''\<rparr>] \<and>
   toISOString (Date_parse (LocalTZA host_env) (legacy_parse host_env)
                  ''2025-12-25T00:00:00.000-03:00'') = Some ''2025-12-25T03:00:00.000Z'' \<and>
   toISOString (Date_parse (LocalTZA host_env) (legacy_parse host_env)
                  ''2025-12-25T23:59:59.999-03:00'') = Some ''2025-12-26T02:59:59.999Z''"
  by code_simp

theorem availability_window_server_local_witness:
  "map (\<lambda>e. case e of EventsList p \<Rightarrow> l_timeMin p | _ \<Rightarrow> [])
     (snd (snd (availability host_env no_client (Some ''2025-12-25'')))) =
   [[], ''2025-12-25T00:00:00.000Z''] \<and>
   ''2025-12-25T00:00:00.000Z'' \<noteq> ''2025-12-25T03:00:00.000Z''"
  using availability_window_server_local by simp

section \<open>Further properties of the availability handler\<close>

text \<open>
  Property X1. An availability request without a date, or with an empty one, is answered
  with status 400 and nothing is called outside the process.
\<close>

theorem availability_validation:
  assumes "date = None \<or> date = Some []"
  shows "availability h c date =
           (\<lparr>status = 400, body = Failure ''Missing required query parameter: date''\<rparr>, c, [])"
  using assms by (auto simp: availability_def)

theorem availability_validation_witness:
  "availability host_env no_client None =
     (\<lparr>status = 400, body = Failure ''Missing required query parameter: date''\<rparr>, no_client, [])"
  using availability_validation [of None host_env no_client] by simp

text \<open>
  Property X2. When the \<^verbatim>\<open>events.list\<close> call of an availability request throws, the
  request is answered with status 500 and the message of the error after a fixed prefix,
  whatever the error is: unlike the schedule handler, this handler does not single out an
  expired grant.
\<close>

theorem availability_gateway_failure:
  assumes "EventsList p \<in> set (snd (snd (availability h c date)))"
    and "events_list h p = Inl e"
  shows "fst (availability h c date) =
           \<lparr>status = 500, body = Failure (''Error checking availability: '' @ message e)\<rparr>"
  using availability_listed [OF assms(1)] assms(2) by simp

theorem availability_gateway_failure_witness:
  "fst (availability host_expired no_client (Some ''2026-01-10'')) =
     \<lparr>status = 500, body = Failure ''Error checking availability: invalid_grant''\<rparr>"
proof -
  define p where "p = \<lparr>l_calendarId = ''primary'', l_timeMin = ''2026-01-10T00:00:00.000Z'',
    l_timeMax = ''2026-01-10T23:59:59.999Z'', l_timeZone = ''America/Sao_Paulo'',
    l_singleEvents = True, l_orderBy = Some ''startTime''\<rparr>"
  have "snd (snd (availability host_expired no_client (Some ''2026-01-10''))) =
      [SetCredentials (JObj [(''refresh_token'', JStr ''1//refresh'')]),
       EventsList \<lparr>l_calendarId = ''primary'', l_timeMin = ''2026-01-10T00:00:00.000Z'',
         l_timeMax = ''2026-01-10T23:59:59.999Z'', l_timeZone = ''America/Sao_Paulo'',
         l_singleEvents = True, l_orderBy = Some ''startTime''\<rparr>]"
    by code_simp
  then have 1: "EventsList p \<in> set (snd (snd (availability host_expired no_client (Some ''2026-01-10''))))"
    by (simp add: p_def)
  have 2: "events_list host_expired p = Inl \<lparr>code = CodeNum 400, message = ''invalid_grant''\<rparr>"
    by (simp add: host_expired_def)
  show ?thesis
    using availability_gateway_failure [OF 1 2] by simp
qed

end
